theory Spec2Isabelle
  imports Complex_Main "HOL-Library.Char_ord" "HOL-Library.List_Lexorder" "HOL-Library.Multiset"
begin

section \<open>Python values used by the models\<close>

text \<open>
  Exceptions of the Python code are values: every function that can raise returns
  \<open>error + 'a\<close>, with \<open>Inl\<close> the exception.
\<close>

datatype error =
    IndexError
  | KeyError
  | ValueError
  | TypeError
  | AttributeError
  | OverflowError
  | ZeroDivisionError
  | FileNotFoundError
  | Exception string

text \<open>
  A Python or numpy float: a finite number, the two infinities, or not-a-number. Every
  comparison with \<open>NaN\<close> is false. The operations \<open>fsub\<close>, \<open>fadd\<close>,
  \<open>fmul\<close> and \<open>fdiv\<close> give the exact result on finite numbers; \<open>float_add\<close>
  below is the addition with the rounding of the machine, and it is the one used for the
  running total \<open>totPoss\<close>, whose value depends on the order of the additions.
\<close>

datatype pyfloat = Fin real | PInf | NInf | NaN

fun flt :: "pyfloat \<Rightarrow> pyfloat \<Rightarrow> bool" where
  "flt NaN _ = False"
| "flt _ NaN = False"
| "flt (Fin a) (Fin b) = (a < b)"
| "flt (Fin a) PInf = True"
| "flt (Fin a) NInf = False"
| "flt PInf _ = False"
| "flt NInf NInf = False"
| "flt NInf _ = True"

fun fle :: "pyfloat \<Rightarrow> pyfloat \<Rightarrow> bool" where
  "fle NaN _ = False"
| "fle _ NaN = False"
| "fle (Fin a) (Fin b) = (a \<le> b)"
| "fle (Fin a) PInf = True"
| "fle (Fin a) NInf = False"
| "fle PInf PInf = True"
| "fle PInf _ = False"
| "fle NInf _ = True"

fun fsub :: "pyfloat \<Rightarrow> pyfloat \<Rightarrow> pyfloat" where
  "fsub NaN _ = NaN"
| "fsub _ NaN = NaN"
| "fsub (Fin a) (Fin b) = Fin (a - b)"
| "fsub (Fin a) PInf = NInf"
| "fsub (Fin a) NInf = PInf"
| "fsub PInf PInf = NaN"
| "fsub PInf _ = PInf"
| "fsub NInf NInf = NaN"
| "fsub NInf _ = NInf"

subsection \<open>Strings\<close>

text \<open>
  \<open>s.find(sub)\<close>: the lowest index at which \<open>sub\<close> occurs in \<open>s\<close> as a
  substring, and \<open>-1\<close> when it does not occur.
\<close>

fun find_from :: "string \<Rightarrow> string \<Rightarrow> int \<Rightarrow> int" where
  "find_from [] sub i = (if sub = [] then i else - 1)"
| "find_from (c # cs) sub i =
     (if take (length sub) (c # cs) = sub then i else find_from cs sub (i + 1))"

definition py_find :: "string \<Rightarrow> string \<Rightarrow> int" where
  "py_find s sub = find_from s sub 0"

text \<open>
  \<open>s[i]\<close> on a string: a negative index counts from the end, an index out of range
  raises \<open>IndexError\<close>, and the result is the string of that one character.
\<close>

definition py_getitem :: "string \<Rightarrow> int \<Rightarrow> error + string" where
  "py_getitem s i =
     (let n = int (length s); j = (if i < 0 then n + i else i)
      in if 0 \<le> j \<and> j < n then Inr [s ! nat j] else Inl IndexError)"

section \<open>utils.py: upsets\<close>

text \<open>
  \<open>is_upset(r1, r2)\<close>:
  \<open>(r1 < 0 and 0 < r2 <= 20) or (r1 > 0 and r2 > 0 and r1-r2 > 10)\<close>.
\<close>

definition is_upset :: "pyfloat \<Rightarrow> pyfloat \<Rightarrow> bool" where
  "is_upset r1 r2 =
     ((flt r1 (Fin 0) \<and> (flt (Fin 0) r2 \<and> fle r2 (Fin 20)))
      \<or> (flt (Fin 0) r1 \<and> flt (Fin 0) r2 \<and> flt (Fin 10) (fsub r1 r2)))"

record upset_row =
  rank1 :: pyfloat
  rank2 :: pyfloat
  prob :: pyfloat

definition get_df_upset_prob :: "upset_row \<Rightarrow> pyfloat" where
  "get_df_upset_prob row =
     (if is_upset (rank1 row) (rank2 row) then prob row
      else if is_upset (rank2 row) (rank1 row) then fsub (Fin 1) (prob row)
      else Fin 0)"

text \<open>Float addition without rounding: the exact sum of two finite numbers.\<close>

fun fadd :: "pyfloat \<Rightarrow> pyfloat \<Rightarrow> pyfloat" where
  "fadd NaN _ = NaN"
| "fadd _ NaN = NaN"
| "fadd (Fin a) (Fin b) = Fin (a + b)"
| "fadd (Fin a) PInf = PInf"
| "fadd (Fin a) NInf = NInf"
| "fadd PInf NInf = NaN"
| "fadd PInf _ = PInf"
| "fadd NInf PInf = NaN"
| "fadd NInf _ = NInf"

subsection \<open>Float addition with rounding\<close>

text \<open>
  A Python float is an IEEE 754 binary64 number, and \<open>x + y\<close> is the exact sum rounded
  to the nearest such number, a tie going to the one with an even significand.
  \<open>round_even\<close> rounds a real to the nearest integer in that way. \<open>binade k x 0\<close> is
  the exponent \<open>e\<close> with \<open>2 powi e \<le> x < 2 powi (e + 1)\<close>, not below the exponent
  \<open>-1022\<close> of the subnormal numbers, found from \<open>0\<close> in at most \<open>k\<close> steps; the
  numbers with that exponent are the multiples of \<open>2 powi (e - 52)\<close>. A result of
  magnitude \<open>2 powi 1024\<close> or more is an infinity. The model has no negative zero.
\<close>

definition round_even :: "real \<Rightarrow> int" where
  "round_even x =
     (let n = \<lfloor>x\<rfloor>; f = x - of_int n
      in if f < 1 / 2 then n else if 1 / 2 < f then n + 1 else if even n then n else n + 1)"

fun binade :: "nat \<Rightarrow> real \<Rightarrow> int \<Rightarrow> int" where
  "binade 0 x e = e"
| "binade (Suc k) x e =
     (if 2 powi (e + 1) \<le> x then binade k x (e + 1)
      else if x < 2 powi e \<and> - 1022 < e then binade k x (e - 1)
      else e)"

definition to_double :: "real \<Rightarrow> pyfloat" where
  "to_double x =
     (if x = 0 then Fin 0
      else let e = binade 2200 \<bar>x\<bar> 0;
               ulp = 2 powi (e - 52);
               r = of_int (round_even (x / ulp)) * ulp
           in if 2 powi 1024 \<le> \<bar>r\<bar> then (if 0 < x then PInf else NInf) else Fin r)"

fun float_add :: "pyfloat \<Rightarrow> pyfloat \<Rightarrow> pyfloat" where
  "float_add NaN _ = NaN"
| "float_add _ NaN = NaN"
| "float_add (Fin a) (Fin b) = to_double (a + b)"
| "float_add (Fin a) PInf = PInf"
| "float_add (Fin a) NInf = NInf"
| "float_add PInf NInf = NaN"
| "float_add PInf _ = PInf"
| "float_add NInf PInf = NaN"
| "float_add NInf _ = NInf"

subsection \<open>Statements that can raise\<close>

text \<open>
  A loop \<open>for x in xs: body\<close> over a state, stopping at the first exception, and a
  block of statements run in order.
\<close>

fun for_each :: "'a list \<Rightarrow> ('a \<Rightarrow> 's \<Rightarrow> error + 's) \<Rightarrow> 's \<Rightarrow> error + 's" where
  "for_each [] body s = Inr s"
| "for_each (x # xs) body s =
     (case body x s of Inl e \<Rightarrow> Inl e | Inr s' \<Rightarrow> for_each xs body s')"

definition block :: "('s \<Rightarrow> error + 's) list \<Rightarrow> 's \<Rightarrow> error + 's" where
  "block stmts = for_each stmts (\<lambda>stmt. stmt)"

section \<open>utils.py: compute_season_stats\<close>

definition STATNAMES :: "string list" where
  "STATNAMES = [''Score'', ''FGM'', ''FGA'', ''FGM3'', ''FGA3'', ''FTM'', ''FTA'',
                ''OR'', ''DR'', ''Ast'', ''TO'', ''Stl'', ''Blk'', ''PF'']"

text \<open>
  A row of the per-game data frame. \<open>stat\<close> holds the integer box-score columns by
  their column name, so \<open>row["W"+sn]\<close> is \<open>stat row (''W'' @ sn)\<close> and
  \<open>row.WScore\<close> is \<open>stat row ''WScore''\<close>.
\<close>

record game =
  Season :: int
  WTeamID :: string
  LTeamID :: string
  WLoc :: string
  NumOT :: int
  row_poss :: pyfloat
  stat :: "string \<Rightarrow> int"

text \<open>
  The dict \<open>stats[year][tid]\<close>. The entries \<open>"T"+sn\<close> and \<open>"O"+sn\<close> are the
  map \<open>tot\<close>, keyed by the whole key; the other keys are the fields.
\<close>

record team_stats =
  wins :: int
  losses :: int
  totOT :: int
  totPoss :: pyfloat
  opps :: "string list"
  scores :: "(int \<times> int) list"
  HA :: "string list"
  poss :: "pyfloat list"
  nOT :: "int list"
  tot :: "string \<rightharpoonup> int"

type_synonym season_stats = "int \<rightharpoonup> (string \<rightharpoonup> team_stats)"

text \<open>Lines 54 to 66: the dict of a team seen for the first time.\<close>

definition new_team :: team_stats where
  "new_team =
     fold (\<lambda>sn ts. ts\<lparr>tot := ((tot ts)(''T'' @ sn \<mapsto> 0))(''O'' @ sn \<mapsto> 0)\<rparr>) STATNAMES
       \<lparr>wins = 0, losses = 0, totOT = 0, totPoss = Fin 0, opps = [], scores = [], HA = [],
        poss = [], nOT = [], tot = Map.empty\<rparr>"

text \<open>Lines 53 to 66: \<open>if tid not in stats[year]: ...\<close>.\<close>

definition init_team :: "int \<Rightarrow> string \<Rightarrow> season_stats \<Rightarrow> error + season_stats" where
  "init_team year tid stats =
     (case stats year of
        None \<Rightarrow> Inl KeyError
      | Some teams \<Rightarrow>
          if tid \<notin> dom teams then Inr (stats(year \<mapsto> teams(tid \<mapsto> new_team)))
          else Inr stats)"

text \<open>
  A statement on the dict \<open>stats[year][tid]\<close>, which is mutated in place: both
  lookups can raise \<open>KeyError\<close>.
\<close>

definition on_team ::
  "int \<Rightarrow> string \<Rightarrow> (team_stats \<Rightarrow> error + team_stats) \<Rightarrow> season_stats \<Rightarrow> error + season_stats" where
  "on_team year tid stmt stats =
     (case stats year of
        None \<Rightarrow> Inl KeyError
      | Some teams \<Rightarrow>
          (case teams tid of
             None \<Rightarrow> Inl KeyError
           | Some ts \<Rightarrow>
               (case stmt ts of
                  Inl e \<Rightarrow> Inl e
                | Inr ts' \<Rightarrow> Inr (stats(year \<mapsto> teams(tid \<mapsto> ts'))))))"

text \<open>\<open>d[k] += v\<close> on the stat totals.\<close>

definition add_tot :: "string \<Rightarrow> int \<Rightarrow> team_stats \<Rightarrow> error + team_stats" where
  "add_tot k v ts =
     (case tot ts k of
        None \<Rightarrow> Inl KeyError
      | Some x \<Rightarrow> Inr (ts\<lparr>tot := (tot ts)(k \<mapsto> x + v)\<rparr>))"

text \<open>The expression \<open>'HNA'['ANH'.find(row.WLoc)]\<close> of line 84.\<close>

definition loser_HA :: "string \<Rightarrow> error + string" where
  "loser_HA wloc = py_getitem ''HNA'' (py_find ''ANH'' wloc)"

definition append_loser_HA :: "string \<Rightarrow> team_stats \<Rightarrow> error + team_stats" where
  "append_loser_HA wloc ts =
     (case loser_HA wloc of
        Inl e \<Rightarrow> Inl e
      | Inr c \<Rightarrow> Inr (ts\<lparr>HA := HA ts @ [c]\<rparr>))"

text \<open>The body of the loop over the rows, lines 45 to 88.\<close>

definition season_row :: "game \<Rightarrow> season_stats \<Rightarrow> error + season_stats" where
  "season_row row stats =
     (let year = Season row; wid = WTeamID row; lid = LTeamID row in
      block [
        (\<lambda>st. Inr (if year \<notin> dom st then st(year \<mapsto> Map.empty) else st)),
        for_each [wid, lid] (init_team year),
        for_each STATNAMES (\<lambda>sn. block [
          on_team year wid (add_tot (''T'' @ sn) (stat row (''W'' @ sn))),
          on_team year wid (add_tot (''O'' @ sn) (stat row (''L'' @ sn))),
          on_team year lid (add_tot (''T'' @ sn) (stat row (''L'' @ sn))),
          on_team year lid (add_tot (''O'' @ sn) (stat row (''W'' @ sn)))]),
        on_team year wid (\<lambda>ts. Inr (ts\<lparr>wins := wins ts + 1\<rparr>)),
        on_team year lid (\<lambda>ts. Inr (ts\<lparr>losses := losses ts + 1\<rparr>)),
        on_team year wid (\<lambda>ts. Inr (ts\<lparr>totOT := totOT ts + NumOT row\<rparr>)),
        on_team year lid (\<lambda>ts. Inr (ts\<lparr>totOT := totOT ts + NumOT row\<rparr>)),
        on_team year wid (\<lambda>ts. Inr (ts\<lparr>totPoss := float_add (totPoss ts) (row_poss row)\<rparr>)),
        on_team year lid (\<lambda>ts. Inr (ts\<lparr>totPoss := float_add (totPoss ts) (row_poss row)\<rparr>)),
        on_team year wid (\<lambda>ts. Inr (ts\<lparr>opps := opps ts @ [lid]\<rparr>)),
        on_team year lid (\<lambda>ts. Inr (ts\<lparr>opps := opps ts @ [wid]\<rparr>)),
        on_team year wid
          (\<lambda>ts. Inr (ts\<lparr>scores := scores ts @ [(stat row ''WScore'', stat row ''LScore'')]\<rparr>)),
        on_team year lid
          (\<lambda>ts. Inr (ts\<lparr>scores := scores ts @ [(stat row ''LScore'', stat row ''WScore'')]\<rparr>)),
        on_team year wid (\<lambda>ts. Inr (ts\<lparr>HA := HA ts @ [WLoc row]\<rparr>)),
        on_team year lid (append_loser_HA (WLoc row)),
        on_team year wid (\<lambda>ts. Inr (ts\<lparr>poss := poss ts @ [row_poss row]\<rparr>)),
        on_team year lid (\<lambda>ts. Inr (ts\<lparr>poss := poss ts @ [row_poss row]\<rparr>)),
        on_team year wid (\<lambda>ts. Inr (ts\<lparr>nOT := nOT ts @ [NumOT row]\<rparr>)),
        on_team year lid (\<lambda>ts. Inr (ts\<lparr>nOT := nOT ts @ [NumOT row]\<rparr>))]
      stats)"

definition compute_season_stats :: "game list \<Rightarrow> error + season_stats" where
  "compute_season_stats df = for_each df season_row Map.empty"

section \<open>utils.py: compile_training_data\<close>

text \<open>
  Float multiplication and division without rounding. \<open>fdiv\<close> is the division of
  numpy: a division by zero raises nothing and gives an infinity or NaN. The model has no
  negative zero; a zero divisor counts as \<open>+0.0\<close>.
\<close>

fun fneg :: "pyfloat \<Rightarrow> pyfloat" where
  "fneg (Fin a) = Fin (- a)"
| "fneg PInf = NInf"
| "fneg NInf = PInf"
| "fneg NaN = NaN"

fun fmul :: "pyfloat \<Rightarrow> pyfloat \<Rightarrow> pyfloat" where
  "fmul NaN _ = NaN"
| "fmul _ NaN = NaN"
| "fmul (Fin a) (Fin b) = Fin (a * b)"
| "fmul (Fin a) PInf = (if a = 0 then NaN else if 0 < a then PInf else NInf)"
| "fmul (Fin a) NInf = (if a = 0 then NaN else if 0 < a then NInf else PInf)"
| "fmul PInf (Fin b) = (if b = 0 then NaN else if 0 < b then PInf else NInf)"
| "fmul NInf (Fin b) = (if b = 0 then NaN else if 0 < b then NInf else PInf)"
| "fmul PInf PInf = PInf"
| "fmul PInf NInf = NInf"
| "fmul NInf PInf = NInf"
| "fmul NInf NInf = PInf"

fun fdiv :: "pyfloat \<Rightarrow> pyfloat \<Rightarrow> pyfloat" where
  "fdiv NaN _ = NaN"
| "fdiv _ NaN = NaN"
| "fdiv (Fin a) (Fin b) =
     (if b = 0 then (if a = 0 then NaN else if 0 < a then PInf else NInf) else Fin (a / b))"
| "fdiv (Fin a) PInf = Fin 0"
| "fdiv (Fin a) NInf = Fin 0"
| "fdiv PInf (Fin b) = (if 0 \<le> b then PInf else NInf)"
| "fdiv NInf (Fin b) = (if 0 \<le> b then NInf else PInf)"
| "fdiv PInf _ = NaN"
| "fdiv NInf _ = NaN"



text \<open>Sequencing of two computations that can raise.\<close>

definition and_then :: "error + 'a \<Rightarrow> ('a \<Rightarrow> error + 'b) \<Rightarrow> error + 'b" where
  "and_then m f = (case m of Inl e \<Rightarrow> Inl e | Inr x \<Rightarrow> f x)"

text \<open>
  A row of the game-level data frame that \<open>compile_training_data\<close> reads: the columns of
  \<open>game\<close> and the date, the game id and the two ranks.
\<close>

record ranked_game = game +
  Date :: string
  row_gid :: string
  Wrank :: pyfloat
  Lrank :: pyfloat








section \<open>utils.py: add_advanced_stats\<close>

text \<open>
  The numeric columns of a data frame: a column name gives the list of the column's
  values, one per row. \<open>df[name]\<close> raises \<open>KeyError\<close> for a name that is no column.
\<close>

type_synonym frame = "string \<rightharpoonup> pyfloat list"

text \<open>
  A column expression of pandas, as \<open>add_advanced_stats\<close> writes them: a column of the
  frame, a float times an expression, and the elementwise sum, difference and quotient
  of two expressions.
\<close>

datatype expr =
    Col string
  | Scale real expr
  | Add expr expr
  | Sub expr expr
  | Div expr expr

fun eval :: "frame \<Rightarrow> expr \<Rightarrow> error + pyfloat list" where
  "eval df (Col name) = (case df name of None \<Rightarrow> Inl KeyError | Some col \<Rightarrow> Inr col)"
| "eval df (Scale k e) = and_then (eval df e) (\<lambda>xs. Inr (map (fmul (Fin k)) xs))"
| "eval df (Add e1 e2) =
     and_then (eval df e1) (\<lambda>xs. and_then (eval df e2) (\<lambda>ys. Inr (map2 fadd xs ys)))"
| "eval df (Sub e1 e2) =
     and_then (eval df e1) (\<lambda>xs. and_then (eval df e2) (\<lambda>ys. Inr (map2 fsub xs ys)))"
| "eval df (Div e1 e2) =
     and_then (eval df e1) (\<lambda>xs. and_then (eval df e2) (\<lambda>ys. Inr (map2 fdiv xs ys)))"

text \<open>The statement \<open>df[name] = e\<close>.\<close>

definition assign :: "string \<Rightarrow> expr \<Rightarrow> frame \<Rightarrow> error + frame" where
  "assign name e df = and_then (eval df e) (\<lambda>col. Inr (df(name \<mapsto> col)))"

text \<open>The body of the loop over \<open>c\<close>, lines 129 to 136.\<close>

definition advanced_side :: "string \<Rightarrow> frame \<Rightarrow> error + frame" where
  "advanced_side c =
     (let opp = (if c = ''O'' then ''T'' else ''O'') in
      block [
        assign (c @ ''poss'')
          (Add (Sub (Add (Col (c @ ''FGA'')) (Scale 0.44 (Col (c @ ''FTA'')))) (Col (c @ ''OR'')))
               (Col (c @ ''TO''))),
        assign (c @ ''eff'') (Div (Scale 100 (Col (c @ ''Score''))) (Col (c @ ''poss''))),
        assign (c @ ''astr'')
          (Div (Col (c @ ''Ast''))
               (Add (Add (Add (Col (c @ ''FGA'')) (Scale 0.44 (Col (c @ ''FTA''))))
                         (Col (c @ ''Ast'')))
                    (Col (c @ ''TO'')))),
        assign (c @ ''tovr'')
          (Div (Col (c @ ''TO''))
               (Add (Add (Col (c @ ''FGA'')) (Scale 0.44 (Col (c @ ''FTA'')))) (Col (c @ ''TO'')))),
        assign (c @ ''efgp'')
          (Div (Add (Col (c @ ''FGM'')) (Scale 0.5 (Col (c @ ''FGM3'')))) (Col (c @ ''FGA''))),
        assign (c @ ''orbp'')
          (Div (Col (c @ ''OR'')) (Add (Col (c @ ''OR'')) (Col (opp @ ''DR'')))),
        assign (c @ ''ftr'') (Div (Col (c @ ''FTA'')) (Col (c @ ''FGA'')))])"

definition add_advanced_stats :: "frame \<Rightarrow> error + frame" where
  "add_advanced_stats =
     block [
       for_each [''T'', ''O''] advanced_side,
       assign ''rawpace''
         (Div (Scale 0.5 (Add (Col ''Tposs'') (Col ''Oposs'')))
              (Add (Add (Col ''wins'') (Col ''losses'')) (Scale 0.125 (Col ''totOT''))))]"

section \<open>Python strings, integers and dates used by the scraper\<close>

text \<open>\<open>xs[i]\<close> on a list, for an index that is not negative.\<close>

definition py_nth :: "'a list \<Rightarrow> nat \<Rightarrow> error + 'a" where
  "py_nth xs i = (if i < length xs then Inr (xs ! i) else Inl IndexError)"

text \<open>
  \<open>s.split(sep)\<close> for a separator of one character: every occurrence splits, so the
  result is never empty and may hold empty strings.
\<close>

fun py_split :: "char \<Rightarrow> string \<Rightarrow> string list" where
  "py_split sep [] = [[]]"
| "py_split sep (c # cs) =
     (if c = sep then [] # py_split sep cs
      else (case py_split sep cs of [] \<Rightarrow> [[c]] | w # ws \<Rightarrow> (c # w) # ws))"

text \<open>
  A character is a code point below 256. \<open>is_space\<close> holds for those for which
  \<open>str.isspace\<close> holds, the whitespace of \<open>strip()\<close> and \<open>split()\<close>: the
  space, the five controls \<open>0x09\<close> to \<open>0x0D\<close> (tab, newline, vertical tab, form
  feed, carriage return), the four separators \<open>0x1C\<close> to \<open>0x1F\<close>, \<open>0x85\<close> and
  \<open>0xA0\<close>.
\<close>

definition is_space :: "char \<Rightarrow> bool" where
  "is_space c = (c \<in> set [CHR '' '', CHR 0x09, CHR 0x0A, CHR 0x0B, CHR 0x0C, CHR 0x0D,
                            CHR 0x1C, CHR 0x1D, CHR 0x1E, CHR 0x1F, CHR 0x85, CHR 0xA0])"

definition py_strip :: "string \<Rightarrow> string" where
  "py_strip s = rev (dropWhile is_space (rev (dropWhile is_space s)))"

text \<open>\<open>s.split()\<close>: the maximal runs of characters that are not whitespace.\<close>

fun split_ws :: "string \<Rightarrow> string \<Rightarrow> string list" where
  "split_ws w [] = (if w = [] then [] else [rev w])"
| "split_ws w (c # cs) =
     (if is_space c then (if w = [] then split_ws [] cs else rev w # split_ws [] cs)
      else split_ws (c # w) cs)"

definition py_split_ws :: "string \<Rightarrow> string list" where
  "py_split_ws s = split_ws [] s"

text \<open>
  \<open>int(s)\<close> on a string: whitespace around the number is dropped, one sign is allowed,
  and single underscores may stand between digits; anything else is a \<open>ValueError\<close>.
  The whitespace that \<open>int\<close> drops is not that of \<open>strip()\<close>: of the characters
  below 127 it is the space and the controls \<open>0x09\<close> to \<open>0x0D\<close> only, so the
  separators \<open>0x1C\<close> to \<open>0x1F\<close> make a \<open>ValueError\<close>; \<open>0x85\<close>
  and \<open>0xA0\<close> are replaced by a space first. The digits are \<open>0\<close> to \<open>9\<close>, and
  there is no bound on their number (as before Python 3.11).
\<close>

definition is_int_space :: "char \<Rightarrow> bool" where
  "is_int_space c = (c \<in> set [CHR '' '', CHR 0x09, CHR 0x0A, CHR 0x0B, CHR 0x0C, CHR 0x0D,
                                CHR 0x85, CHR 0xA0])"

definition int_strip :: "string \<Rightarrow> string" where
  "int_strip s = rev (dropWhile is_int_space (rev (dropWhile is_int_space s)))"

definition is_digit :: "char \<Rightarrow> bool" where
  "is_digit c = (CHR ''0'' \<le> c \<and> c \<le> CHR ''9'')"

definition digits_value :: "string \<Rightarrow> int" where
  "digits_value ds = foldl (\<lambda>acc c. 10 * acc + (int (of_char c) - 48)) 0 ds"

definition py_int :: "string \<Rightarrow> error + int" where
  "py_int s =
     (let t = int_strip s;
          negative = (t \<noteq> [] \<and> hd t = CHR ''-'');
          body = (if t \<noteq> [] \<and> (hd t = CHR ''-'' \<or> hd t = CHR ''+'') then tl t else t);
          parts = py_split CHR ''_'' body
      in if list_all (\<lambda>p. p \<noteq> [] \<and> list_all is_digit p) parts
         then Inr ((if negative then - 1 else 1) * digits_value (concat parts))
         else Inl ValueError)"

text \<open>\<open>str(n)\<close> for an integer, and zero padding as \<open>%04d\<close> and \<open>%02d\<close> do it.\<close>

fun nat_digits :: "nat \<Rightarrow> string" where
  "nat_digits n =
     (if n < 10 then [char_of (48 + n)] else nat_digits (n div 10) @ [char_of (48 + n mod 10)])"

definition py_str :: "int \<Rightarrow> string" where
  "py_str i = (if i < 0 then CHR ''-'' # nat_digits (nat (- i)) else nat_digits (nat i))"

definition zero_pad :: "nat \<Rightarrow> int \<Rightarrow> string" where
  "zero_pad width i =
     (if i < 0
      then CHR ''-'' # replicate (width - 1 - length (nat_digits (nat (- i)))) CHR ''0''
             @ nat_digits (nat (- i))
      else replicate (width - length (nat_digits (nat i))) CHR ''0'' @ nat_digits (nat i))"

text \<open>\<open>[f(x) for x in xs]\<close> for an \<open>f\<close> that can raise.\<close>

fun map_raise :: "('a \<Rightarrow> error + 'b) \<Rightarrow> 'a list \<Rightarrow> error + 'b list" where
  "map_raise f [] = Inr []"
| "map_raise f (x # xs) =
     and_then (f x) (\<lambda>y. and_then (map_raise f xs) (\<lambda>ys. Inr (y # ys)))"

subsection \<open>datetime.date\<close>

text \<open>A \<open>datetime.date\<close>: year, month and day of a valid date of the years 1 to 9999.\<close>

type_synonym date = "int \<times> int \<times> int"

definition is_leap :: "int \<Rightarrow> bool" where
  "is_leap y = (y mod 4 = 0 \<and> (y mod 100 \<noteq> 0 \<or> y mod 400 = 0))"

definition days_in_month :: "int \<Rightarrow> int \<Rightarrow> int" where
  "days_in_month y m =
     (if m = 2 then (if is_leap y then 29 else 28)
      else if m = 4 \<or> m = 6 \<or> m = 9 \<or> m = 11 then 30 else 31)"

text \<open>
  \<open>dt.date(*args)\<close>: a \<open>TypeError\<close> unless there are three arguments, an
  \<open>OverflowError\<close> for one that does not fit a C int, a \<open>ValueError\<close> for one out of
  range.
\<close>

definition make_date :: "int list \<Rightarrow> error + date" where
  "make_date args =
     (case args of
        [y, m, d] \<Rightarrow>
          if \<not> list_all (\<lambda>x. - (2 ^ 31) \<le> x \<and> x < 2 ^ 31) [y, m, d] then Inl OverflowError
          else if 1 \<le> y \<and> y \<le> 9999 \<and> 1 \<le> m \<and> m \<le> 12 \<and> 1 \<le> d \<and> d \<le> days_in_month y m
          then Inr (y, m, d)
          else Inl ValueError
      | _ \<Rightarrow> Inl TypeError)"

text \<open>\<open>dt.date(*[int(x) for x in date.split("-")])\<close>.\<close>

definition parse_date :: "string \<Rightarrow> error + date" where
  "parse_date s = and_then (map_raise py_int (py_split CHR ''-'' s)) make_date"

text \<open>\<open>d - dt.timedelta(1)\<close>: the day before, and an \<open>OverflowError\<close> before 0001-01-01.\<close>

definition prev_day :: "date \<Rightarrow> error + date" where
  "prev_day dt =
     (case dt of (y, m, d) \<Rightarrow>
        if 1 < d then Inr (y, m, d - 1)
        else if 1 < m then Inr (y, m - 1, days_in_month y (m - 1))
        else if 1 < y then Inr (y - 1, 12, 31)
        else Inl OverflowError)"

text \<open>\<open>str(d)\<close>: the ISO format \<open>YYYY-MM-DD\<close>.\<close>

definition date_str :: "date \<Rightarrow> string" where
  "date_str dt =
     (case dt of (y, m, d) \<Rightarrow> zero_pad 4 y @ ''-'' @ zero_pad 2 m @ ''-'' @ zero_pad 2 d)"

text \<open>The order of dates.\<close>

definition date_less :: "date \<Rightarrow> date \<Rightarrow> bool" where
  "date_less a b =
     (case (a, b) of ((y1, m1, d1), (y2, m2, d2)) \<Rightarrow>
        y1 < y2 \<or> (y1 = y2 \<and> (m1 < m2 \<or> (m1 = m2 \<and> d1 < d2))))"

subsection \<open>Dictionaries that keep the order of insertion\<close>

type_synonym ('k, 'v) dict = "('k \<times> 'v) list"

definition dict_get :: "('k, 'v) dict \<Rightarrow> 'k \<Rightarrow> error + 'v" where
  "dict_get d k = (case map_of d k of None \<Rightarrow> Inl KeyError | Some v \<Rightarrow> Inr v)"

fun dict_set :: "'k \<Rightarrow> 'v \<Rightarrow> ('k, 'v) dict \<Rightarrow> ('k, 'v) dict" where
  "dict_set k v [] = [(k, v)]"
| "dict_set k v ((k', v') # d) = (if k' = k then (k, v) # d else (k', v') # dict_set k v d)"

definition dict_keys :: "('k, 'v) dict \<Rightarrow> 'k list" where
  "dict_keys d = map fst d"

section \<open>SportsRefScrape.py: get_game_data\<close>

text \<open>
  \<open>get_gid\<close>: the date and the two team names in alphabetical order, joined by
  underscores.
\<close>

definition get_gid :: "string \<Rightarrow> string \<Rightarrow> string \<Rightarrow> string" where
  "get_gid date t1 t2 =
     (let tnames = sort [t1, t2]
      in date @ ''_'' @ tnames ! 0 @ ''_'' @ tnames ! 1)"

text \<open>
  What the code reads from one \<open>tr\<close> of a team's game log, as BeautifulSoup gives it:
  the row's \<open>id\<close> attribute, the text of the link in the date cell and the \<open>href\<close> of
  the link in the opponent cell (\<open>None\<close> when the cell has no link), the text of the
  location cell (\<open>None\<close> when it is blank), the text of the \<open>small\<close> element of the
  result cell (\<open>None\<close> when there is none), and the text of every statistics cell by its
  \<open>data-stat\<close> name (\<open>None\<close> when it is blank).
\<close>

record tr =
  tr_id :: "string option"
  date_game :: "string option"
  opp_href :: "string option"
  game_location :: "string option"
  result_small :: "string option"
  cells :: "string \<Rightarrow> string option"

text \<open>
  What the code reads from a team's schedule page: for a date, the text of the
  \<open>game_type\<close> cell of the row with that date (\<open>Some None\<close> when the cell is blank),
  and \<open>None\<close> when the page has no row with that date.
\<close>

type_synonym schedule = "string \<rightharpoonup> string option"

text \<open>The two dictionaries of the function, from a date to the ids and to the lines.\<close>

record seen =
  gids :: "(string, string list) dict"
  rows :: "(string, string list) dict"

text \<open>The list \<open>stats\<close> of line 79.\<close>

definition stat_names :: "string list" where
  "stat_names = [''pts'', ''fg'', ''fga'', ''fg3'', ''fg3a'', ''ft'', ''fta'', ''orb'', ''trb'',
            ''ast'', ''stl'', ''blk'', ''tov'', ''pf'']"

text \<open>
  Lines 126 to 133. The schedule page is there, and is looked at, when
  \<open>enddate == None or enddate.month >= 2\<close>; a date that it does not have makes
  \<open>find\<close> return \<open>None\<close>, and the next call on it raises \<open>AttributeError\<close>. The game
  type is \<open>None\<close> for a blank cell, as \<open>.string\<close> is.
\<close>

definition game_type :: "date option \<Rightarrow> schedule \<Rightarrow> string \<Rightarrow> error + string option" where
  "game_type enddate soup2 date =
     and_then
       (if enddate = None \<or> 2 \<le> fst (snd (the enddate))
        then (case soup2 date of None \<Rightarrow> Inl AttributeError | Some gtype \<Rightarrow> Inr gtype)
        else Inr (Some ''REG''))
       (\<lambda>gtype.
          let gtype = (if gtype = Some ''REG'' then Some ''RG'' else gtype);
              gtype = (if gtype = Some ''CTOURN'' then Some ''CT'' else gtype)
          in Inr gtype)"

text \<open>Lines 135 to 140.\<close>

definition normalize_loc :: "string option \<Rightarrow> error + string" where
  "normalize_loc loc =
     (if loc = None then Inr ''H''
      else if loc = Some ''@'' then Inr ''A''
      else if loc = Some ''N'' then Inr ''N''
      else Inl (Exception (the loc)))"

text \<open>Lines 142 to 146.\<close>

definition overtimes :: "string option \<Rightarrow> error + int" where
  "overtimes small =
     (case small of
        None \<Rightarrow> Inr 0
      | Some text \<Rightarrow>
          and_then (py_nth (py_split CHR ''('' text) 1) (\<lambda>after.
          and_then (py_nth (py_split_ws after) 0) py_int))"

text \<open>Line 150.\<close>

definition getint :: "string option \<Rightarrow> error + int" where
  "getint x = (case x of None \<Rightarrow> Inr 0 | Some s \<Rightarrow> py_int s)"

text \<open>Lines 148 to 153: the two dictionaries of the row's statistics.\<close>

fun read_stats ::
  "(string \<Rightarrow> string option) \<Rightarrow> string list \<Rightarrow> (string \<rightharpoonup> int) \<times> (string \<rightharpoonup> int)
     \<Rightarrow> error + (string \<rightharpoonup> int) \<times> (string \<rightharpoonup> int)" where
  "read_stats td [] dicts = Inr dicts"
| "read_stats td (s # ss) dicts =
     and_then (getint (td s)) (\<lambda>own.
     and_then (getint (td (''opp_'' @ s))) (\<lambda>other.
       read_stats td ss ((fst dicts)(s \<mapsto> own), (snd dicts)(s \<mapsto> other))))"

text \<open>\<open>d[k]\<close> on a statistics dictionary.\<close>

definition stat_of :: "(string \<rightharpoonup> int) \<Rightarrow> string \<Rightarrow> error + int" where
  "stat_of d k = (case d k of None \<Rightarrow> Inl KeyError | Some v \<Rightarrow> Inr v)"

text \<open>
  Lines 155 to 162: winner and loser, and the location seen from the winner. The result
  is \<open>(wd, ld, wteam, lteam, loc)\<close>.
\<close>

definition orient ::
  "string \<Rightarrow> string \<Rightarrow> string \<Rightarrow> (string \<rightharpoonup> int) \<Rightarrow> (string \<rightharpoonup> int)
     \<Rightarrow> error + (string \<rightharpoonup> int) \<times> (string \<rightharpoonup> int) \<times> string \<times> string \<times> string" where
  "orient team opp loc statdict opp_statdict =
     and_then (stat_of statdict ''pts'') (\<lambda>pts.
     and_then (stat_of opp_statdict ''pts'') (\<lambda>opp_pts.
       if opp_pts < pts then Inr (statdict, opp_statdict, team, opp, loc)
       else Inr (opp_statdict, statdict, opp, team,
                 if loc = ''H'' then ''A'' else if loc = ''A'' then ''H'' else loc)))"

text \<open>
  The statistics of one side in the order of the line, lines 167 and 168: the defensive
  rebounds are \<open>trb - orb\<close>.
\<close>

definition side_fields :: "(string \<rightharpoonup> int) \<Rightarrow> error + string list" where
  "side_fields d =
     and_then (stat_of d ''fg'') (\<lambda>fg.
     and_then (stat_of d ''fga'') (\<lambda>fga.
     and_then (stat_of d ''fg3'') (\<lambda>fg3.
     and_then (stat_of d ''fg3a'') (\<lambda>fg3a.
     and_then (stat_of d ''ft'') (\<lambda>ft.
     and_then (stat_of d ''fta'') (\<lambda>fta.
     and_then (stat_of d ''orb'') (\<lambda>orb.
     and_then (stat_of d ''trb'') (\<lambda>trb.
     and_then (stat_of d ''orb'') (\<lambda>orb2.
     and_then (stat_of d ''ast'') (\<lambda>ast.
     and_then (stat_of d ''tov'') (\<lambda>tov.
     and_then (stat_of d ''stl'') (\<lambda>stl.
     and_then (stat_of d ''blk'') (\<lambda>blk.
     and_then (stat_of d ''pf'') (\<lambda>pf.
       Inr (map py_str [fg, fga, fg3, fg3a, ft, fta, orb, trb - orb2, ast, tov, stl, blk,
                        pf])))))))))))))))"

text \<open>\<open>str(x)\<close> of the game type, which can be \<open>None\<close>.\<close>

definition str_option :: "string option \<Rightarrow> string" where
  "str_option x = (case x of None \<Rightarrow> ''None'' | Some s \<Rightarrow> s)"

text \<open>The 35 fields of a line joined by commas, with the newline.\<close>

fun join_fields :: "string list \<Rightarrow> string" where
  "join_fields [] = [CHR 0x0A]"
| "join_fields [f] = f @ [CHR 0x0A]"
| "join_fields (f # g # fs) = f @ '','' @ join_fields (g # fs)"

text \<open>Lines 126 to 168: the fields of the line of a game that is no duplicate.\<close>

definition game_fields ::
  "int \<Rightarrow> date option \<Rightarrow> schedule \<Rightarrow> string \<Rightarrow> string \<Rightarrow> string \<Rightarrow> tr \<Rightarrow> error + string list" where
  "game_fields season enddate soup2 team opp date row =
     and_then (game_type enddate soup2 date) (\<lambda>gtype.
     and_then (normalize_loc (game_location row)) (\<lambda>loc.
     and_then (overtimes (result_small row)) (\<lambda>numot.
     and_then (read_stats (cells row) stat_names (Map.empty, Map.empty)) (\<lambda>dicts.
     and_then (orient team opp loc (fst dicts) (snd dicts)) (\<lambda>(wd, ld, wteam, lteam, loc).
     and_then (stat_of wd ''pts'') (\<lambda>wpts.
     and_then (stat_of ld ''pts'') (\<lambda>lpts.
     and_then (side_fields wd) (\<lambda>wfields.
     and_then (side_fields ld) (\<lambda>lfields.
       Inr ([py_str season, date, str_option gtype, wteam, py_str wpts, lteam, py_str lpts,
             loc, py_str numot] @ wfields @ lfields))))))))))"

text \<open>
  Lines 106 to 110: the date filters. A date is parsed only when there is a filter to
  compare it with.
\<close>

definition filtered_out :: "date option \<Rightarrow> date option \<Rightarrow> string \<Rightarrow> error + bool" where
  "filtered_out startdate enddate date =
     and_then
       (if startdate \<noteq> None
        then and_then (parse_date date) (\<lambda>d. Inr (date_less d (the startdate)))
        else Inr False)
       (\<lambda>too_early.
          if too_early then Inr True
          else if enddate \<noteq> None
          then and_then (parse_date date) (\<lambda>d. Inr (date_less (the enddate) d))
          else Inr False)"

text \<open>Lines 118 to 120: \<open>if date not in gids.keys(): ...\<close>.\<close>

definition open_date :: "string \<Rightarrow> seen \<Rightarrow> seen" where
  "open_date date st =
     (if date \<notin> set (dict_keys (gids st))
      then st\<lparr>gids := dict_set date [] (gids st), rows := dict_set date [] (rows st)\<rparr>
      else st)"

text \<open>
  The test of line 121:
  \<open>gid in gids[date] or (datem1day in gids.keys() and gidm1day in gids[datem1day])\<close>.
\<close>

definition is_duplicate :: "seen \<Rightarrow> string \<Rightarrow> string \<Rightarrow> string \<Rightarrow> string \<Rightarrow> error + bool" where
  "is_duplicate st date gid datem1day gidm1day =
     and_then (dict_get (gids st) date) (\<lambda>ids.
       if gid \<in> set ids then Inr True
       else if datem1day \<in> set (dict_keys (gids st))
       then and_then (dict_get (gids st) datem1day) (\<lambda>ids1. Inr (gidm1day \<in> set ids1))
       else Inr False)"

text \<open>\<open>d[date].append(x)\<close> on one of the two dictionaries.\<close>

definition append_to ::
  "string \<Rightarrow> string \<Rightarrow> (string, string list) dict \<Rightarrow> error + (string, string list) dict" where
  "append_to date x d = and_then (dict_get d date) (\<lambda>xs. Inr (dict_set date (xs @ [x]) d))"

text \<open>
  Lines 114 to 170, for a row with a date link, inside the date filters and with an
  opponent link. A \<open>continue\<close> returns the dictionaries as they are at that point.
\<close>

definition record_game ::
  "int \<Rightarrow> date option \<Rightarrow> string \<Rightarrow> schedule \<Rightarrow> tr \<Rightarrow> string \<Rightarrow> string \<Rightarrow> seen \<Rightarrow> error + seen" where
  "record_game season enddate team soup2 row date href st =
     and_then (py_nth (py_split CHR ''/'' href) 3) (\<lambda>opp.
     and_then (parse_date date) (\<lambda>d.
     and_then (prev_day d) (\<lambda>dm1.
     let gid = get_gid date team opp;
         datem1day = date_str dm1;
         gidm1day = get_gid datem1day team opp;
         st = open_date date st
     in
     and_then (is_duplicate st date gid datem1day gidm1day) (\<lambda>duplicate.
       if duplicate then Inr st
       else
         and_then (append_to date gid (gids st)) (\<lambda>gids'.
         and_then (game_fields season enddate soup2 team opp date row) (\<lambda>fields.
         and_then (append_to date (join_fields fields) (rows st)) (\<lambda>rows'.
           Inr \<lparr>gids = gids', rows = rows'\<rparr>)))))))"

text \<open>The body of the loop over the rows of a team's game log, lines 96 to 170.\<close>

definition tr_step ::
  "int \<Rightarrow> date option \<Rightarrow> date option \<Rightarrow> string \<Rightarrow> schedule \<Rightarrow> tr \<Rightarrow> seen \<Rightarrow> error + seen" where
  "tr_step season startdate enddate team soup2 row st =
     (if tr_id row = None then Inr st
      else case date_game row of
        None \<Rightarrow> Inr st
      | Some date \<Rightarrow>
          and_then (filtered_out startdate enddate date) (\<lambda>skip.
            if skip then Inr st
            else case opp_href row of
              None \<Rightarrow> Inr st
            | Some href \<Rightarrow> record_game season enddate team soup2 row date href st))"

text \<open>
  Lines 68 to 77: a line of the old file (after its header) is recorded under its date.
\<close>

definition old_line :: "string \<Rightarrow> seen \<Rightarrow> error + seen" where
  "old_line line st =
     (let sp = py_split CHR '','' (py_strip line) in
      and_then (py_nth sp 1) (\<lambda>date.
      and_then (py_nth sp 3) (\<lambda>t1.
      and_then (py_nth sp 5) (\<lambda>t2.
      let gid = get_gid date t1 t2;
          st = open_date date st
      in
      and_then (append_to date line (rows st)) (\<lambda>rows'.
      and_then (append_to date gid (gids st)) (\<lambda>gids'.
        Inr \<lparr>gids = gids', rows = rows'\<rparr>))))))"

text \<open>
  The pages of the site that the function fetches: the list of teams of the season, every
  team's game log as the list of the \<open>tr\<close> of its table, and every team's schedule page.
\<close>

record site =
  team_list :: "string list"
  gamelog :: "string \<Rightarrow> tr list"
  schedule_page :: "string \<Rightarrow> schedule"

definition header :: string where
  "header = ''Season,DayNum,Type,WTeamID,WScore,LTeamID,LScore,WLoc,NumOT,WFGM,WFGA,WFGM3,WFGA3,WFTM,WFTA,WOR,WDR,WAst,WTO,WStl,WBlk,WPF,LFGM,LFGA,LFGM3,LFGA3,LFTM,LFTA,LOR,LDR,LAst,LTO,LStl,LBlk,LPF'' @ [CHR 0x0A]"

text \<open>
  Lines 172 to 179: what is written to the file, the header and then the lines of every
  date in the order of the dates.
\<close>

fun lines_by_date :: "(string, string list) dict \<Rightarrow> string list \<Rightarrow> error + string list" where
  "lines_by_date rs [] = Inr []"
| "lines_by_date rs (date # dates) =
     and_then (dict_get rs date) (\<lambda>lines.
     and_then (lines_by_date rs dates) (\<lambda>more. Inr (lines @ more)))"

text \<open>
  The files that can be read, from a path to the lines that \<open>readlines()\<close> gives.
  \<open>open(path)\<close> raises \<open>FileNotFoundError\<close> for the empty path and for a path that
  has no file.
\<close>

type_synonym files = "string \<rightharpoonup> string list"

definition read_lines :: "files \<Rightarrow> string \<Rightarrow> error + string list" where
  "read_lines fs path =
     (if path = [] then Inl FileNotFoundError
      else case fs path of None \<Rightarrow> Inl FileNotFoundError | Some ls \<Rightarrow> Inr ls)"

text \<open>
  \<open>get_game_data\<close>. \<open>fout\<close> is \<open>None\<close> or the path of the file; the result is the
  dictionary \<open>rows\<close> that is returned and, when the file is written (\<open>if fout:\<close>, a
  path that is not empty), the lines written to it.
\<close>

definition get_game_data ::
  "site \<Rightarrow> files \<Rightarrow> int \<Rightarrow> string option \<Rightarrow> bool \<Rightarrow> string list option \<Rightarrow> date option
     \<Rightarrow> date option \<Rightarrow> error + (string, string list) dict \<times> string list option" where
  "get_game_data web fs season fout overwrite teams startdate enddate =
     (let teams = (if teams = None then team_list web else the teams) in
      and_then
        (if fout \<noteq> None \<and> overwrite = False
         then and_then (read_lines fs (the fout)) (\<lambda>old.
                for_each (drop 1 old) old_line \<lparr>gids = [], rows = []\<rparr>)
         else Inr \<lparr>gids = [], rows = []\<rparr>)
        (\<lambda>st.
      and_then
        (for_each teams
           (\<lambda>team. for_each (gamelog web team)
              (tr_step season startdate enddate team (schedule_page web team)))
           st)
        (\<lambda>st.
      if fout \<noteq> None \<and> fout \<noteq> Some []
      then and_then (lines_by_date (rows st) (sort (dict_keys (gids st)))) (\<lambda>lines.
             Inr (rows st, Some (header # lines)))
      else Inr (rows st, None))))"
section \<open>Auxiliary definitions for the proofs\<close>

subsection \<open>Season statistics seen per team\<close>

definition team_at :: "season_stats \<Rightarrow> int \<Rightarrow> string \<Rightarrow> team_stats option" where
  "team_at st year tid = (case st year of None \<Rightarrow> None | Some teams \<Rightarrow> teams tid)"

definition put_team :: "int \<Rightarrow> string \<Rightarrow> team_stats \<Rightarrow> season_stats \<Rightarrow> season_stats" where
  "put_team year tid ts st =
     (case st year of
        None \<Rightarrow> st(year \<mapsto> [tid \<mapsto> ts])
      | Some teams \<Rightarrow> st(year \<mapsto> teams(tid \<mapsto> ts)))"

definition flipped_loc :: "string \<Rightarrow> string" where
  "flipped_loc wloc = (case loser_HA wloc of Inl e \<Rightarrow> [] | Inr c \<Rightarrow> c)"

definition tot_delta :: "string list \<Rightarrow> game \<Rightarrow> string \<Rightarrow> string \<Rightarrow> int" where
  "tot_delta sns row tid k =
     (\<Sum>sn\<leftarrow>sns.
        (if tid = WTeamID row \<and> k = ''T'' @ sn then stat row (''W'' @ sn) else 0)
      + (if tid = WTeamID row \<and> k = ''O'' @ sn then stat row (''L'' @ sn) else 0)
      + (if tid = LTeamID row \<and> k = ''T'' @ sn then stat row (''L'' @ sn) else 0)
      + (if tid = LTeamID row \<and> k = ''O'' @ sn then stat row (''W'' @ sn) else 0))"

definition tail_effect :: "game \<Rightarrow> string \<Rightarrow> team_stats \<Rightarrow> team_stats" where
  "tail_effect r t ts =
     ts\<lparr>wins := wins ts + (if t = WTeamID r then 1 else 0),
        losses := losses ts + (if t = LTeamID r then 1 else 0),
        totOT := totOT ts + (if t = WTeamID r then NumOT r else 0)
                 + (if t = LTeamID r then NumOT r else 0),
        totPoss := foldl float_add (totPoss ts)
                     ((if t = WTeamID r then [row_poss r] else [])
                      @ (if t = LTeamID r then [row_poss r] else [])),
        opps := opps ts @ (if t = WTeamID r then [LTeamID r] else [])
                 @ (if t = LTeamID r then [WTeamID r] else []),
        scores := scores ts
                 @ (if t = WTeamID r then [(stat r ''WScore'', stat r ''LScore'')] else [])
                 @ (if t = LTeamID r then [(stat r ''LScore'', stat r ''WScore'')] else []),
        HA := HA ts @ (if t = WTeamID r then [WLoc r] else [])
                 @ (if t = LTeamID r then [flipped_loc (WLoc r)] else []),
        poss := poss ts @ (if t = WTeamID r then [row_poss r] else [])
                 @ (if t = LTeamID r then [row_poss r] else []),
        nOT := nOT ts @ (if t = WTeamID r then [NumOT r] else [])
                 @ (if t = LTeamID r then [NumOT r] else [])\<rparr>"

definition involved :: "int \<Rightarrow> string \<Rightarrow> game \<Rightarrow> bool" where
  "involved y t r = (Season r = y \<and> (t = WTeamID r \<or> t = LTeamID r))"

definition wf_stats :: "season_stats \<Rightarrow> bool" where
  "wf_stats st = (\<forall>y t ts. team_at st y t = Some ts \<longrightarrow>
       (\<forall>sn\<in>set STATNAMES. tot ts (''T'' @ sn) \<noteq> None \<and> tot ts (''O'' @ sn) \<noteq> None))"

definition has_keys :: "string list \<Rightarrow> team_stats \<Rightarrow> bool" where
  "has_keys sns ts = (\<forall>sn\<in>set sns. tot ts (''T'' @ sn) \<noteq> None \<and> tot ts (''O'' @ sn) \<noteq> None)"

definition add_tots :: "string list \<Rightarrow> game \<Rightarrow> string \<Rightarrow> team_stats \<Rightarrow> team_stats" where
  "add_tots sns row tid ts =
     ts\<lparr>tot := (\<lambda>k. map_option (\<lambda>x. x + tot_delta sns row tid k) (tot ts k))\<rparr>"

definition row_effect :: "game \<Rightarrow> string \<Rightarrow> team_stats \<Rightarrow> team_stats" where
  "row_effect r t ts = tail_effect r t (add_tots STATNAMES r t ts)"

definition team_fold :: "int \<Rightarrow> string \<Rightarrow> game list \<Rightarrow> team_stats \<Rightarrow> team_stats" where
  "team_fold y t games ts = fold (\<lambda>r. row_effect r t) (filter (involved y t) games) ts"

definition HA_of :: "error + season_stats \<Rightarrow> int \<Rightarrow> string \<Rightarrow> string list option" where
  "HA_of res year tid =
     (case res of
        Inl e \<Rightarrow> None
      | Inr stats \<Rightarrow>
          (case stats year of
             None \<Rightarrow> None
           | Some teams \<Rightarrow> (case teams tid of None \<Rightarrow> None | Some ts \<Rightarrow> Some (HA ts))))"

definition totPoss_of :: "error + season_stats \<Rightarrow> int \<Rightarrow> string \<Rightarrow> pyfloat option" where
  "totPoss_of res year tid =
     (case res of
        Inl e \<Rightarrow> None
      | Inr stats \<Rightarrow>
          (case stats year of
             None \<Rightarrow> None
           | Some teams \<Rightarrow> (case teams tid of None \<Rightarrow> None | Some ts \<Rightarrow> Some (totPoss ts))))"

definition box_score :: "int \<Rightarrow> int \<Rightarrow> string \<Rightarrow> int" where
  "box_score w l k = (if k = ''WScore'' then w else if k = ''LScore'' then l else 0)"

definition game_a :: game where
  "game_a = \<lparr>Season = 2020, WTeamID = ''purdue'', LTeamID = ''indiana'', WLoc = ''H'',
              NumOT = 1, row_poss = Fin 70, stat = box_score 80 70\<rparr>"

definition game_b :: game where
  "game_b = \<lparr>Season = 2020, WTeamID = ''iowa'', LTeamID = ''purdue'', WLoc = ''N'',
              NumOT = 0, row_poss = Fin 65, stat = box_score 61 58\<rparr>"

definition game_blank_loc :: game where
  "game_blank_loc = \<lparr>Season = 2020, WTeamID = ''purdue'', LTeamID = ''indiana'', WLoc = [],
              NumOT = 0, row_poss = Fin 70, stat = box_score 80 70\<rparr>"

text \<open>
  Three games of one team whose \<open>poss\<close> are the floats written \<open>77.34\<close>,
  \<open>71.64\<close> and \<open>62.74\<close>.
\<close>

definition game_p1 :: game where
  "game_p1 = \<lparr>Season = 2020, WTeamID = ''purdue'', LTeamID = ''indiana'', WLoc = ''H'',
               NumOT = 0, row_poss = Fin (2721159337350267 / 35184372088832),
               stat = box_score 80 70\<rparr>"

definition game_p2 :: game where
  "game_p2 = \<lparr>Season = 2020, WTeamID = ''purdue'', LTeamID = ''iowa'', WLoc = ''A'',
               NumOT = 0, row_poss = Fin (5041216832887849 / 70368744177664),
               stat = box_score 75 71\<rparr>"

definition game_p3 :: game where
  "game_p3 = \<lparr>Season = 2020, WTeamID = ''purdue'', LTeamID = ''illinois'', WLoc = ''N'',
               NumOT = 0, row_poss = Fin (8829870019413279 / 140737488355328),
               stat = box_score 66 60\<rparr>"

definition hist_ok :: "team_stats \<Rightarrow> bool" where
  "hist_ok ts =
     (int (length (opps ts)) = wins ts + losses ts
      \<and> int (length (scores ts)) = wins ts + losses ts
      \<and> int (length (HA ts)) = wins ts + losses ts
      \<and> int (length (poss ts)) = wins ts + losses ts
      \<and> int (length (nOT ts)) = wins ts + losses ts)"

subsection \<open>Training rows\<close>



definition ranked :: "game \<Rightarrow> ranked_game" where
  "ranked g = game.extend g (ranked_game.fields ''2020-01-15'' ''g'' (Fin 3) (Fin 15))"




subsection \<open>Column expressions row by row\<close>

fun eval_row :: "(string \<Rightarrow> pyfloat) \<Rightarrow> expr \<Rightarrow> pyfloat" where
  "eval_row r (Col name) = r name"
| "eval_row r (Scale k e) = fmul (Fin k) (eval_row r e)"
| "eval_row r (Add e1 e2) = fadd (eval_row r e1) (eval_row r e2)"
| "eval_row r (Sub e1 e2) = fsub (eval_row r e1) (eval_row r e2)"
| "eval_row r (Div e1 e2) = fdiv (eval_row r e1) (eval_row r e2)"

fun cols :: "expr \<Rightarrow> string set" where
  "cols (Col name) = {name}"
| "cols (Scale k e) = cols e"
| "cols (Add e1 e2) = cols e1 \<union> cols e2"
| "cols (Sub e1 e2) = cols e1 \<union> cols e2"
| "cols (Div e1 e2) = cols e1 \<union> cols e2"

definition cell :: "frame \<Rightarrow> nat \<Rightarrow> string \<Rightarrow> pyfloat" where
  "cell df i name = (case df name of None \<Rightarrow> NaN | Some col \<Rightarrow> col ! i)"

definition frame_ok :: "nat \<Rightarrow> frame \<Rightarrow> bool" where
  "frame_ok n df = (\<forall>name col. df name = Some col \<longrightarrow> length col = n)"

fun reads_ok :: "(string \<times> expr) list \<Rightarrow> string set \<Rightarrow> bool" where
  "reads_ok [] D = True"
| "reads_ok ((name, e) # prog) D = (cols e \<subseteq> D \<and> reads_ok prog (insert name D))"

definition side_prog :: "string \<Rightarrow> string \<Rightarrow> (string \<times> expr) list" where
  "side_prog c opp =
     [(c @ ''poss'',
        Add (Sub (Add (Col (c @ ''FGA'')) (Scale 0.44 (Col (c @ ''FTA'')))) (Col (c @ ''OR'')))
            (Col (c @ ''TO''))),
      (c @ ''eff'', Div (Scale 100 (Col (c @ ''Score''))) (Col (c @ ''poss''))),
      (c @ ''astr'',
        Div (Col (c @ ''Ast''))
            (Add (Add (Add (Col (c @ ''FGA'')) (Scale 0.44 (Col (c @ ''FTA''))))
                      (Col (c @ ''Ast'')))
                 (Col (c @ ''TO'')))),
      (c @ ''tovr'',
        Div (Col (c @ ''TO''))
            (Add (Add (Col (c @ ''FGA'')) (Scale 0.44 (Col (c @ ''FTA'')))) (Col (c @ ''TO'')))),
      (c @ ''efgp'',
        Div (Add (Col (c @ ''FGM'')) (Scale 0.5 (Col (c @ ''FGM3'')))) (Col (c @ ''FGA''))),
      (c @ ''orbp'', Div (Col (c @ ''OR'')) (Add (Col (c @ ''OR'')) (Col (opp @ ''DR'')))),
      (c @ ''ftr'', Div (Col (c @ ''FTA'')) (Col (c @ ''FGA'')))]"

definition advanced_prog :: "(string \<times> expr) list" where
  "advanced_prog = side_prog ''T'' ''O'' @ side_prog ''O'' ''T'' @
     [(''rawpace'',
        Div (Scale 0.5 (Add (Col ''Tposs'') (Col ''Oposs'')))
            (Add (Add (Col ''wins'') (Col ''losses'')) (Scale 0.125 (Col ''totOT''))))]"

definition input_columns :: "string list" where
  "input_columns = [''wins'', ''losses'', ''totOT'']
     @ concat (map (\<lambda>c. map (\<lambda>sn. c @ sn)
         [''FGA'', ''FTA'', ''OR'', ''TO'', ''Score'', ''Ast'', ''FGM'', ''FGM3'', ''DR''])
         [''T'', ''O''])"

definition example_frame :: frame where
  "example_frame = map_of
     [(''wins'', [Fin 1, Fin 0]), (''losses'', [Fin 0, Fin 0]), (''totOT'', [Fin 0, Fin 0]),
      (''TFGA'', [Fin 60, Fin 0]), (''TFTA'', [Fin 25, Fin 0]), (''TOR'', [Fin 10, Fin 0]),
      (''TTO'', [Fin 12, Fin 0]), (''TScore'', [Fin 80, Fin 0]), (''TAst'', [Fin 15, Fin 0]),
      (''TFGM'', [Fin 30, Fin 0]), (''TFGM3'', [Fin 8, Fin 0]), (''TDR'', [Fin 25, Fin 0]),
      (''OFGA'', [Fin 58, Fin 0]), (''OFTA'', [Fin 20, Fin 0]), (''OOR'', [Fin 9, Fin 0]),
      (''OTO'', [Fin 14, Fin 0]), (''OScore'', [Fin 70, Fin 0]), (''OAst'', [Fin 12, Fin 0]),
      (''OFGM'', [Fin 26, Fin 0]), (''OFGM3'', [Fin 6, Fin 0]), (''ODR'', [Fin 24, Fin 0])]"

definition run_row :: "(string \<times> expr) list \<Rightarrow> (string \<Rightarrow> pyfloat) \<Rightarrow> (string \<Rightarrow> pyfloat)" where
  "run_row prog r = fold (\<lambda>(name, e) r. r(name := eval_row r e)) prog r"

section \<open>Properties\<close>

subsection \<open>Upsets\<close>

lemma is_upset_asym: "is_upset r1 r2 \<Longrightarrow> \<not> is_upset r2 r1"
  by (cases r1; cases r2) (auto simp: is_upset_def)

text \<open>
  C10: for all rank values (finite, infinite or NaN) \<open>is_upset r1 r2\<close> and
  \<open>is_upset r2 r1\<close> are never both true. So the branch of \<open>get_df_upset_prob\<close>
  that returns \<open>prob\<close> and the one that returns \<open>1 - prob\<close> exclude each other:
  the result is \<open>prob\<close> exactly under the first test, \<open>1 - prob\<close> exactly under the
  second (which the first never shadows), and \<open>0.0\<close> exactly when both tests fail.
\<close>

theorem is_upset_exclusive:
  "\<not> (is_upset r1 r2 \<and> is_upset r2 r1)
   \<and> (is_upset (rank1 row) (rank2 row) \<longrightarrow> get_df_upset_prob row = prob row)
   \<and> (is_upset (rank2 row) (rank1 row) \<longrightarrow> get_df_upset_prob row = fsub (Fin 1) (prob row))
   \<and> (\<not> is_upset (rank1 row) (rank2 row) \<and> \<not> is_upset (rank2 row) (rank1 row)
        \<longrightarrow> get_df_upset_prob row = Fin 0)
   \<and> get_df_upset_prob row \<in> {prob row, fsub (Fin 1) (prob row), Fin 0}"
  using is_upset_asym [of r1 r2] is_upset_asym [of "rank1 row" "rank2 row"]
  by (auto simp: get_df_upset_prob_def)

theorem is_upset_exclusive_witness:
  "is_upset (Fin 3) (Fin 15) = False \<and> is_upset (Fin 15) (Fin 3) = True
   \<and> get_df_upset_prob \<lparr>rank1 = Fin 3, rank2 = Fin 15, prob = Fin (3 / 4)\<rparr> = Fin (1 / 4)
   \<and> get_df_upset_prob \<lparr>rank1 = Fin (- 1), rank2 = Fin 7, prob = Fin (3 / 4)\<rparr> = Fin (3 / 4)
   \<and> get_df_upset_prob \<lparr>rank1 = NaN, rank2 = Fin 7, prob = Fin (3 / 4)\<rparr> = Fin 0"
  using is_upset_exclusive [of "Fin 3" "Fin 15" "\<lparr>rank1 = Fin 3, rank2 = Fin 15, prob = Fin (3 / 4)\<rparr>"]
    is_upset_exclusive [of "Fin 3" "Fin 15" "\<lparr>rank1 = Fin (- 1), rank2 = Fin 7, prob = Fin (3 / 4)\<rparr>"]
    is_upset_exclusive [of "Fin 3" "Fin 15" "\<lparr>rank1 = NaN, rank2 = Fin 7, prob = Fin (3 / 4)\<rparr>"]
  by (simp add: is_upset_def)

subsection \<open>The body of compute_season_stats\<close>

lemma team_at_empty [simp]: "team_at Map.empty y t = None"
  by (simp add: team_at_def)

lemma team_at_put [simp]:
  "team_at (put_team y t ts st) y' t' = (if y' = y \<and> t' = t then Some ts else team_at st y' t')"
  by (auto simp: team_at_def put_team_def split: option.splits)

lemma dom_put [simp]: "dom (put_team y t ts st) = insert y (dom st)"
  by (auto simp: put_team_def split: option.splits)

lemma team_at_dom: "team_at st y t = Some ts \<Longrightarrow> y \<in> dom st"
  by (auto simp: team_at_def split: option.splits)

lemma block_Nil: "block [] s = Inr s"
  by (simp add: block_def)

lemma block_Cons:
  "block (f # fs) s = (case f s of Inl e \<Rightarrow> Inl e | Inr s' \<Rightarrow> block fs s')"
  by (simp add: block_def split: sum.splits)

lemma on_team_eq:
  "on_team y t stmt st =
     (case team_at st y t of
        None \<Rightarrow> Inl KeyError
      | Some ts \<Rightarrow> (case stmt ts of Inl e \<Rightarrow> Inl e | Inr ts' \<Rightarrow> Inr (put_team y t ts' st)))"
  by (auto simp: on_team_def team_at_def put_team_def split: option.splits sum.splits)

lemma init_team_eq:
  "init_team y t st =
     (if y \<in> dom st then Inr (if team_at st y t = None then put_team y t new_team st else st)
      else Inl KeyError)"
  by (auto simp: init_team_def team_at_def put_team_def split: option.splits)

lemma add_tot_eq:
  "tot ts k = Some x \<Longrightarrow> add_tot k v ts = Inr (ts\<lparr>tot := (tot ts)(k \<mapsto> x + v)\<rparr>)"
  by (simp add: add_tot_def)

lemma T_neq_O [simp]: "''T'' @ a \<noteq> ''O'' @ b" "''O'' @ a \<noteq> ''T'' @ b"
  by simp_all

lemma on_team_add_tot:
  assumes "team_at st y t = Some ts" and "tot ts k = Some x"
  shows "on_team y t (add_tot k v) st = Inr (put_team y t (ts\<lparr>tot := (tot ts)(k \<mapsto> x + v)\<rparr>) st)"
  using assms by (simp add: on_team_eq add_tot_def)

lemma add_tots_single:
  assumes "tot ts (''T'' @ sn) = Some x1" and "tot ts (''O'' @ sn) = Some x2"
  shows "add_tots [sn] r t ts =
      ts\<lparr>tot := (tot ts)
        (''T'' @ sn \<mapsto> x1 + ((if t = WTeamID r then stat r (''W'' @ sn) else 0)
                               + (if t = LTeamID r then stat r (''L'' @ sn) else 0)),
         ''O'' @ sn \<mapsto> x2 + ((if t = WTeamID r then stat r (''L'' @ sn) else 0)
                               + (if t = LTeamID r then stat r (''W'' @ sn) else 0)))\<rparr>"
proof -
  have "(\<lambda>k. map_option (\<lambda>x. x + tot_delta [sn] r t k) (tot ts k)) =
      (tot ts)
        (''T'' @ sn \<mapsto> x1 + ((if t = WTeamID r then stat r (''W'' @ sn) else 0)
                               + (if t = LTeamID r then stat r (''L'' @ sn) else 0)),
         ''O'' @ sn \<mapsto> x2 + ((if t = WTeamID r then stat r (''L'' @ sn) else 0)
                               + (if t = LTeamID r then stat r (''W'' @ sn) else 0)))"
  proof (rule ext)
    fix k
    consider "k = ''T'' @ sn" | "k = ''O'' @ sn" | "k \<noteq> ''T'' @ sn" "k \<noteq> ''O'' @ sn"
      by blast
    then show "map_option (\<lambda>x. x + tot_delta [sn] r t k) (tot ts k) =
      ((tot ts)
        (''T'' @ sn \<mapsto> x1 + ((if t = WTeamID r then stat r (''W'' @ sn) else 0)
                               + (if t = LTeamID r then stat r (''L'' @ sn) else 0)),
         ''O'' @ sn \<mapsto> x2 + ((if t = WTeamID r then stat r (''L'' @ sn) else 0)
                               + (if t = LTeamID r then stat r (''W'' @ sn) else 0)))) k"
    proof cases
      case 1
      then show ?thesis using assms by (simp add: tot_delta_def)
    next
      case 2
      then show ?thesis using assms by (simp add: tot_delta_def)
    next
      case 3
      then show ?thesis by (simp add: tot_delta_def option.map_ident)
    qed
  qed
  then show ?thesis by (simp add: add_tots_def)
qed

text \<open>One round of the loop over the stat names.\<close>

lemma stat_round:
  assumes a: "team_at st y (WTeamID r) = Some a" and b: "team_at st y (LTeamID r) = Some b"
    and ka: "has_keys [sn] a" and kb: "has_keys [sn] b"
  shows "\<exists>st'. block [
          on_team y (WTeamID r) (add_tot (''T'' @ sn) (stat r (''W'' @ sn))),
          on_team y (WTeamID r) (add_tot (''O'' @ sn) (stat r (''L'' @ sn))),
          on_team y (LTeamID r) (add_tot (''T'' @ sn) (stat r (''L'' @ sn))),
          on_team y (LTeamID r) (add_tot (''O'' @ sn) (stat r (''W'' @ sn)))] st = Inr st'
        \<and> dom st' = dom st
        \<and> (\<forall>y' t'. team_at st' y' t' =
              (if y' = y \<and> (t' = WTeamID r \<or> t' = LTeamID r)
               then map_option (add_tots [sn] r t') (team_at st y' t') else team_at st y' t'))"
proof -
  from ka obtain a1 a2 where a12: "tot a (''T'' @ sn) = Some a1" "tot a (''O'' @ sn) = Some a2"
    by (auto simp: has_keys_def)
  from kb obtain b1 b2 where b12: "tot b (''T'' @ sn) = Some b1" "tot b (''O'' @ sn) = Some b2"
    by (auto simp: has_keys_def)
  have d: "insert y (dom st) = dom st"
    using team_at_dom [OF a] by auto
  define w where "w = WTeamID r"
  define l where "l = LTeamID r"
  define vw where "vw = stat r (''W'' @ sn)"
  define vl where "vl = stat r (''L'' @ sn)"
  define A1 where "A1 = a\<lparr>tot := (tot a)(''T'' @ sn \<mapsto> a1 + vw)\<rparr>"
  define A2 where "A2 = A1\<lparr>tot := (tot A1)(''O'' @ sn \<mapsto> a2 + vl)\<rparr>"
  define s1 where "s1 = put_team y w A1 st"
  define s2 where "s2 = put_team y w A2 s1"
  have aw: "team_at st y w = Some a" and bl: "team_at st y l = Some b"
    using a b by (simp_all add: w_def l_def)
  have r1: "on_team y w (add_tot (''T'' @ sn) vw) st = Inr s1"
    unfolding s1_def A1_def by (rule on_team_add_tot [OF aw a12(1)])
  have A1O: "tot A1 (''O'' @ sn) = Some a2"
    using a12(2) by (simp add: A1_def)
  have r2: "on_team y w (add_tot (''O'' @ sn) vl) s1 = Inr s2"
    unfolding s2_def A2_def by (rule on_team_add_tot [OF _ A1O]) (simp add: s1_def)
  have A2eq: "A2 = a\<lparr>tot := (tot a)(''T'' @ sn \<mapsto> a1 + vw, ''O'' @ sn \<mapsto> a2 + vl)\<rparr>"
    by (simp add: A2_def A1_def)
  have s2_at: "team_at s2 y' t' = (if y' = y \<and> t' = w then Some A2 else team_at st y' t')" for y' t'
    by (simp add: s2_def s1_def)
  have s2_dom: "dom s2 = dom st"
    using d by (simp add: s2_def s1_def)
  obtain B0 y1 y2 where B0: "team_at s2 y l = Some B0"
    and B0T: "tot B0 (''T'' @ sn) = Some y1" and B0O: "tot B0 (''O'' @ sn) = Some y2"
    and y1: "y1 = (if l = w then a1 + vw else b1)" and y2: "y2 = (if l = w then a2 + vl else b2)"
    and B0eq: "B0 = (if l = w then A2 else b)"
    using bl b12 by (simp add: s2_at A2eq)
  define B1 where "B1 = B0\<lparr>tot := (tot B0)(''T'' @ sn \<mapsto> y1 + vl)\<rparr>"
  define B2 where "B2 = B1\<lparr>tot := (tot B1)(''O'' @ sn \<mapsto> y2 + vw)\<rparr>"
  define s3 where "s3 = put_team y l B1 s2"
  define s4 where "s4 = put_team y l B2 s3"
  have r3: "on_team y l (add_tot (''T'' @ sn) vl) s2 = Inr s3"
    unfolding s3_def B1_def by (rule on_team_add_tot [OF B0 B0T])
  have B1O: "tot B1 (''O'' @ sn) = Some y2"
    using B0O by (simp add: B1_def)
  have r4: "on_team y l (add_tot (''O'' @ sn) vw) s3 = Inr s4"
    unfolding s4_def B2_def by (rule on_team_add_tot [OF _ B1O]) (simp add: s3_def)
  have B2eq: "B2 = B0\<lparr>tot := (tot B0)(''T'' @ sn \<mapsto> y1 + vl, ''O'' @ sn \<mapsto> y2 + vw)\<rparr>"
    by (simp add: B2_def B1_def)
  have run: "block [on_team y w (add_tot (''T'' @ sn) vw), on_team y w (add_tot (''O'' @ sn) vl),
      on_team y l (add_tot (''T'' @ sn) vl), on_team y l (add_tot (''O'' @ sn) vw)] st = Inr s4"
    using r1 r2 r3 r4 by (simp add: block_Cons block_Nil)
  have s4_dom: "dom s4 = dom st"
    using s2_dom team_at_dom [OF B0] by (auto simp: s4_def s3_def)
  have s4_at: "team_at s4 y' t' =
      (if y' = y \<and> t' = l then Some B2 else if y' = y \<and> t' = w then Some A2 else team_at st y' t')"
    for y' t'
    by (simp add: s4_def s3_def s2_at)
  have Aw: "l \<noteq> w \<Longrightarrow> A2 = add_tots [sn] r w a"
    by (simp add: add_tots_single [OF a12] A2eq w_def l_def vw_def vl_def)
  have Bl: "l \<noteq> w \<Longrightarrow> B2 = add_tots [sn] r l b"
    using B0eq y1 y2
    by (simp add: add_tots_single [OF b12] B2eq w_def l_def vw_def vl_def)
  have AB: "l = w \<Longrightarrow> B2 = add_tots [sn] r w a"
    using B0eq y1 y2
    by (simp add: add_tots_single [OF a12] B2eq A2eq w_def l_def vw_def vl_def add.assoc)
  have "team_at s4 y' t' =
          (if y' = y \<and> (t' = w \<or> t' = l)
           then map_option (add_tots [sn] r t') (team_at st y' t') else team_at st y' t')" for y' t'
  proof (cases "l = w")
    case True
    then show ?thesis using AB aw by (auto simp: s4_at)
  next
    case False
    then show ?thesis using Aw Bl aw bl by (auto simp: s4_at)
  qed
  with run s4_dom show ?thesis
    unfolding w_def l_def vw_def vl_def by blast
qed

lemma has_keys_add_tots [simp]: "has_keys sns (add_tots sns' r t ts) = has_keys sns ts"
  by (simp add: has_keys_def add_tots_def)

lemma has_keys_Cons: "has_keys (sn # sns) ts = (has_keys [sn] ts \<and> has_keys sns ts)"
  by (auto simp: has_keys_def)

lemma tot_delta_Cons:
  "tot_delta (sn # sns) r t k = tot_delta [sn] r t k + tot_delta sns r t k"
  by (simp add: tot_delta_def)

lemma add_tots_Nil [simp]: "add_tots [] r t ts = ts"
  by (simp add: add_tots_def tot_delta_def option.map_ident)

lemma add_tots_Cons: "add_tots sns r t (add_tots [sn] r t ts) = add_tots (sn # sns) r t ts"
  by (auto simp: add_tots_def tot_delta_Cons [of sn sns] option.map_comp comp_def
      intro!: team_stats.equality ext arg_cong2 [where f = map_option])

text \<open>The whole loop over the stat names, lines 68 to 72.\<close>

lemma stat_loop:
  assumes "team_at st y (WTeamID r) = Some a" and "team_at st y (LTeamID r) = Some b"
    and "has_keys sns a" and "has_keys sns b"
  shows "\<exists>st'. for_each sns (\<lambda>sn. block [
          on_team y (WTeamID r) (add_tot (''T'' @ sn) (stat r (''W'' @ sn))),
          on_team y (WTeamID r) (add_tot (''O'' @ sn) (stat r (''L'' @ sn))),
          on_team y (LTeamID r) (add_tot (''T'' @ sn) (stat r (''L'' @ sn))),
          on_team y (LTeamID r) (add_tot (''O'' @ sn) (stat r (''W'' @ sn)))]) st = Inr st'
        \<and> dom st' = dom st
        \<and> (\<forall>y' t'. team_at st' y' t' =
              (if y' = y \<and> (t' = WTeamID r \<or> t' = LTeamID r)
               then map_option (add_tots sns r t') (team_at st y' t') else team_at st y' t'))"
  using assms
proof (induction sns arbitrary: st a b)
  case Nil
  then show ?case by (simp add: option.map_ident)
next
  case (Cons sn sns)
  from Cons.prems have k1: "has_keys [sn] a" "has_keys [sn] b"
    and k2: "has_keys sns a" "has_keys sns b"
    by (simp_all add: has_keys_Cons [of sn sns])
  from stat_round [OF Cons.prems(1,2) k1]
  obtain st1 where run1: "block [
          on_team y (WTeamID r) (add_tot (''T'' @ sn) (stat r (''W'' @ sn))),
          on_team y (WTeamID r) (add_tot (''O'' @ sn) (stat r (''L'' @ sn))),
          on_team y (LTeamID r) (add_tot (''T'' @ sn) (stat r (''L'' @ sn))),
          on_team y (LTeamID r) (add_tot (''O'' @ sn) (stat r (''W'' @ sn)))] st = Inr st1"
    and d1: "dom st1 = dom st"
    and t1: "\<And>y' t'. team_at st1 y' t' =
              (if y' = y \<and> (t' = WTeamID r \<or> t' = LTeamID r)
               then map_option (add_tots [sn] r t') (team_at st y' t') else team_at st y' t')"
    by blast
  have a1: "team_at st1 y (WTeamID r) = Some (add_tots [sn] r (WTeamID r) a)"
    and b1: "team_at st1 y (LTeamID r) = Some (add_tots [sn] r (LTeamID r) b)"
    using Cons.prems(1,2) by (simp_all add: t1)
  from Cons.IH [OF a1 b1] k2
  obtain st2 where run2: "for_each sns (\<lambda>sn. block [
          on_team y (WTeamID r) (add_tot (''T'' @ sn) (stat r (''W'' @ sn))),
          on_team y (WTeamID r) (add_tot (''O'' @ sn) (stat r (''L'' @ sn))),
          on_team y (LTeamID r) (add_tot (''T'' @ sn) (stat r (''L'' @ sn))),
          on_team y (LTeamID r) (add_tot (''O'' @ sn) (stat r (''W'' @ sn)))]) st1 = Inr st2"
    and d2: "dom st2 = dom st1"
    and t2: "\<And>y' t'. team_at st2 y' t' =
              (if y' = y \<and> (t' = WTeamID r \<or> t' = LTeamID r)
               then map_option (add_tots sns r t') (team_at st1 y' t') else team_at st1 y' t')"
    by auto
  have "team_at st2 y' t' =
          (if y' = y \<and> (t' = WTeamID r \<or> t' = LTeamID r)
           then map_option (add_tots (sn # sns) r t') (team_at st y' t') else team_at st y' t')"
    for y' t'
  proof (cases "y' = y \<and> (t' = WTeamID r \<or> t' = LTeamID r)")
    case True
    then show ?thesis
      by (auto simp: t2 t1 option.map_comp comp_def add_tots_Cons)
  next
    case False
    then show ?thesis
      by (auto simp: t2 t1)
  qed
  with run1 run2 d1 d2 show ?case
    by simp
qed

lemma find_ANH: "py_find ''ANH'' w =
  (if w = [] \<or> w = ''A'' \<or> w = ''AN'' \<or> w = ''ANH'' then 0
   else if w = ''N'' \<or> w = ''NH'' then 1 else if w = ''H'' then 2 else - 1)"
proof (cases w)
  case Nil then show ?thesis by (simp add: py_find_def)
next
  case (Cons a w1)
  show ?thesis
  proof (cases w1)
    case Nil with Cons show ?thesis by (auto simp: py_find_def)
  next
    case (Cons b w2)
    note c2 = this
    show ?thesis
    proof (cases w2)
      case Nil with c2 \<open>w = a # w1\<close> show ?thesis by (auto simp: py_find_def)
    next
      case (Cons c w3)
      with c2 \<open>w = a # w1\<close> show ?thesis by (cases w3) (auto simp: py_find_def)
    qed
  qed
qed

lemma loser_HA_total: "loser_HA w = Inr (flipped_loc w)"
  by (simp add: flipped_loc_def loser_HA_def find_ANH py_getitem_def)

lemma on_team_pure:
  assumes "team_at st y t = Some ts"
  shows "on_team y t (\<lambda>ts. Inr (f ts)) st = Inr (put_team y t (f ts) st)"
  using assms by (simp add: on_team_eq)

lemma on_team_loser_HA:
  assumes "team_at st y t = Some ts"
  shows "on_team y t (append_loser_HA w) st = Inr (put_team y t (ts\<lparr>HA := HA ts @ [flipped_loc w]\<rparr>) st)"
  using assms by (simp add: on_team_eq append_loser_HA_def loser_HA_total)

lemma tail_block:
  assumes a: "team_at st y (WTeamID r) = Some a" and b: "team_at st y (LTeamID r) = Some b"
  shows "\<exists>st'. block [
        on_team y (WTeamID r) (\<lambda>ts. Inr (ts\<lparr>wins := wins ts + 1\<rparr>)),
        on_team y (LTeamID r) (\<lambda>ts. Inr (ts\<lparr>losses := losses ts + 1\<rparr>)),
        on_team y (WTeamID r) (\<lambda>ts. Inr (ts\<lparr>totOT := totOT ts + NumOT r\<rparr>)),
        on_team y (LTeamID r) (\<lambda>ts. Inr (ts\<lparr>totOT := totOT ts + NumOT r\<rparr>)),
        on_team y (WTeamID r) (\<lambda>ts. Inr (ts\<lparr>totPoss := float_add (totPoss ts) (row_poss r)\<rparr>)),
        on_team y (LTeamID r) (\<lambda>ts. Inr (ts\<lparr>totPoss := float_add (totPoss ts) (row_poss r)\<rparr>)),
        on_team y (WTeamID r) (\<lambda>ts. Inr (ts\<lparr>opps := opps ts @ [LTeamID r]\<rparr>)),
        on_team y (LTeamID r) (\<lambda>ts. Inr (ts\<lparr>opps := opps ts @ [WTeamID r]\<rparr>)),
        on_team y (WTeamID r)
          (\<lambda>ts. Inr (ts\<lparr>scores := scores ts @ [(stat r ''WScore'', stat r ''LScore'')]\<rparr>)),
        on_team y (LTeamID r)
          (\<lambda>ts. Inr (ts\<lparr>scores := scores ts @ [(stat r ''LScore'', stat r ''WScore'')]\<rparr>)),
        on_team y (WTeamID r) (\<lambda>ts. Inr (ts\<lparr>HA := HA ts @ [WLoc r]\<rparr>)),
        on_team y (LTeamID r) (append_loser_HA (WLoc r)),
        on_team y (WTeamID r) (\<lambda>ts. Inr (ts\<lparr>poss := poss ts @ [row_poss r]\<rparr>)),
        on_team y (LTeamID r) (\<lambda>ts. Inr (ts\<lparr>poss := poss ts @ [row_poss r]\<rparr>)),
        on_team y (WTeamID r) (\<lambda>ts. Inr (ts\<lparr>nOT := nOT ts @ [NumOT r]\<rparr>)),
        on_team y (LTeamID r) (\<lambda>ts. Inr (ts\<lparr>nOT := nOT ts @ [NumOT r]\<rparr>))] st = Inr st'
      \<and> dom st' = dom st
      \<and> (\<forall>y' t'. team_at st' y' t' =
              (if y' = y \<and> (t' = WTeamID r \<or> t' = LTeamID r)
               then map_option (tail_effect r t') (team_at st y' t') else team_at st y' t'))"
proof -
  have d: "insert y (dom st) = dom st"
    using team_at_dom [OF a] by auto
  show ?thesis
  proof (cases "LTeamID r = WTeamID r")
    case True
    with a b have ba: "b = a" by simp
    show ?thesis
      using a True d
      by (simp add: block_Cons block_Nil on_team_eq append_loser_HA_def loser_HA_total
          tail_effect_def)
  next
    case False
    then have F2: "WTeamID r \<noteq> LTeamID r" by simp
    show ?thesis
      using a b False F2 d
      by (simp add: block_Cons block_Nil on_team_eq append_loser_HA_def loser_HA_total
          tail_effect_def)
  qed
qed

lemma has_keys_tail_effect [simp]: "has_keys sns (tail_effect r t ts) = has_keys sns ts"
  by (simp add: has_keys_def tail_effect_def)

lemma has_keys_row_effect [simp]: "has_keys sns (row_effect r t ts) = has_keys sns ts"
  by (simp add: row_effect_def)

lemma tot_fold_init:
  "tot (fold (\<lambda>sn ts. ts\<lparr>tot := ((tot ts)(''T'' @ sn \<mapsto> 0))(''O'' @ sn \<mapsto> 0)\<rparr>) sns ts) k =
     (if k \<in> (\<lambda>sn. ''T'' @ sn) ` set sns \<union> (\<lambda>sn. ''O'' @ sn) ` set sns then Some 0 else tot ts k)"
  by (induction sns arbitrary: ts) auto

lemma has_keys_new_team: "has_keys STATNAMES new_team"
  unfolding has_keys_def new_team_def tot_fold_init by auto

lemma wf_stats_has_keys: "wf_stats st \<Longrightarrow> team_at st y t = Some ts \<Longrightarrow> has_keys STATNAMES ts"
  unfolding wf_stats_def has_keys_def by blast

lemma wf_statsI: "(\<And>y t ts. team_at st y t = Some ts \<Longrightarrow> has_keys STATNAMES ts) \<Longrightarrow> wf_stats st"
  unfolding wf_stats_def has_keys_def by blast

lemma wf_stats_empty: "wf_stats Map.empty"
  by (simp add: wf_stats_def)

text \<open>Lines 48 to 66: the year's dict and the two teams' dicts exist afterwards.\<close>

lemma init_phase:
  "\<exists>st'. for_each [w, l] (init_team y) (if y \<notin> dom st then st(y \<mapsto> Map.empty) else st) = Inr st'
      \<and> dom st' = insert y (dom st)
      \<and> (\<forall>y' t'. team_at st' y' t' =
            (if y' = y \<and> (t' = w \<or> t' = l)
             then Some (case team_at st y' t' of None \<Rightarrow> new_team | Some ts \<Rightarrow> ts)
             else team_at st y' t'))"
proof -
  define s0 where "s0 = (if y \<notin> dom st then st(y \<mapsto> Map.empty) else st)"
  have s0_at: "team_at s0 y' t' = team_at st y' t'" for y' t'
    by (auto simp: s0_def team_at_def split: option.splits)
  have s0_dom: "dom s0 = insert y (dom st)"
    by (auto simp: s0_def)
  define s1 where "s1 = (if team_at s0 y w = None then put_team y w new_team s0 else s0)"
  define s2 where "s2 = (if team_at s1 y l = None then put_team y l new_team s1 else s1)"
  have s1_dom: "dom s1 = insert y (dom st)"
    by (simp add: s1_def s0_dom)
  have s2_dom: "dom s2 = insert y (dom st)"
    by (simp add: s2_def s1_dom)
  have run: "for_each [w, l] (init_team y) s0 = Inr s2"
    by (simp add: init_team_eq s0_dom s1_dom s1_def [symmetric] s2_def [symmetric])
  have "team_at s2 y' t' =
            (if y' = y \<and> (t' = w \<or> t' = l)
             then Some (case team_at st y' t' of None \<Rightarrow> new_team | Some ts \<Rightarrow> ts)
             else team_at st y' t')" for y' t'
    by (auto simp: s2_def s1_def s0_at split: option.splits)
  with run s2_dom show ?thesis
    unfolding s0_def by blast
qed

lemma season_row_effect:
  assumes wf: "wf_stats st"
  shows "\<exists>st'. season_row r st = Inr st' \<and> wf_stats st'
      \<and> dom st' = insert (Season r) (dom st)
      \<and> (\<forall>y t. team_at st' y t =
            (if involved y t r
             then Some (row_effect r t (case team_at st y t of None \<Rightarrow> new_team | Some ts \<Rightarrow> ts))
             else team_at st y t))"
proof -
  define y where "y = Season r"
  define base where "base = (\<lambda>t. case team_at st y t of None \<Rightarrow> new_team | Some ts \<Rightarrow> ts)"
  have kb: "has_keys STATNAMES (base t)" for t
    using wf_stats_has_keys [OF wf, of y t] has_keys_new_team
    by (auto simp: base_def split: option.splits)
  from init_phase [of "WTeamID r" "LTeamID r" y st]
  obtain s1 where run1: "for_each [WTeamID r, LTeamID r] (init_team y)
        (if y \<notin> dom st then st(y \<mapsto> Map.empty) else st) = Inr s1"
    and d1: "dom s1 = insert y (dom st)"
    and t1raw: "\<And>y' t'. team_at s1 y' t' =
            (if y' = y \<and> (t' = WTeamID r \<or> t' = LTeamID r)
             then Some (case team_at st y' t' of None \<Rightarrow> new_team | Some ts \<Rightarrow> ts)
             else team_at st y' t')"
    by blast
  have t1: "team_at s1 y' t' =
            (if y' = y \<and> (t' = WTeamID r \<or> t' = LTeamID r) then Some (base t')
             else team_at st y' t')" for y' t'
    by (auto simp: t1raw base_def)
  have a1: "team_at s1 y (WTeamID r) = Some (base (WTeamID r))"
    and b1: "team_at s1 y (LTeamID r) = Some (base (LTeamID r))"
    by (simp_all add: t1)
  from stat_loop [OF a1 b1 kb kb]
  obtain s2 where run2: "for_each STATNAMES (\<lambda>sn. block [
          on_team y (WTeamID r) (add_tot (''T'' @ sn) (stat r (''W'' @ sn))),
          on_team y (WTeamID r) (add_tot (''O'' @ sn) (stat r (''L'' @ sn))),
          on_team y (LTeamID r) (add_tot (''T'' @ sn) (stat r (''L'' @ sn))),
          on_team y (LTeamID r) (add_tot (''O'' @ sn) (stat r (''W'' @ sn)))]) s1 = Inr s2"
    and d2: "dom s2 = dom s1"
    and t2: "\<And>y' t'. team_at s2 y' t' =
              (if y' = y \<and> (t' = WTeamID r \<or> t' = LTeamID r)
               then map_option (add_tots STATNAMES r t') (team_at s1 y' t') else team_at s1 y' t')"
    by blast
  have a2: "team_at s2 y (WTeamID r) = Some (add_tots STATNAMES r (WTeamID r) (base (WTeamID r)))"
    and b2: "team_at s2 y (LTeamID r) = Some (add_tots STATNAMES r (LTeamID r) (base (LTeamID r)))"
    by (simp_all add: t2 t1)
  from tail_block [OF a2 b2]
  obtain s3 where run3: "block [
        on_team y (WTeamID r) (\<lambda>ts. Inr (ts\<lparr>wins := wins ts + 1\<rparr>)),
        on_team y (LTeamID r) (\<lambda>ts. Inr (ts\<lparr>losses := losses ts + 1\<rparr>)),
        on_team y (WTeamID r) (\<lambda>ts. Inr (ts\<lparr>totOT := totOT ts + NumOT r\<rparr>)),
        on_team y (LTeamID r) (\<lambda>ts. Inr (ts\<lparr>totOT := totOT ts + NumOT r\<rparr>)),
        on_team y (WTeamID r) (\<lambda>ts. Inr (ts\<lparr>totPoss := float_add (totPoss ts) (row_poss r)\<rparr>)),
        on_team y (LTeamID r) (\<lambda>ts. Inr (ts\<lparr>totPoss := float_add (totPoss ts) (row_poss r)\<rparr>)),
        on_team y (WTeamID r) (\<lambda>ts. Inr (ts\<lparr>opps := opps ts @ [LTeamID r]\<rparr>)),
        on_team y (LTeamID r) (\<lambda>ts. Inr (ts\<lparr>opps := opps ts @ [WTeamID r]\<rparr>)),
        on_team y (WTeamID r)
          (\<lambda>ts. Inr (ts\<lparr>scores := scores ts @ [(stat r ''WScore'', stat r ''LScore'')]\<rparr>)),
        on_team y (LTeamID r)
          (\<lambda>ts. Inr (ts\<lparr>scores := scores ts @ [(stat r ''LScore'', stat r ''WScore'')]\<rparr>)),
        on_team y (WTeamID r) (\<lambda>ts. Inr (ts\<lparr>HA := HA ts @ [WLoc r]\<rparr>)),
        on_team y (LTeamID r) (append_loser_HA (WLoc r)),
        on_team y (WTeamID r) (\<lambda>ts. Inr (ts\<lparr>poss := poss ts @ [row_poss r]\<rparr>)),
        on_team y (LTeamID r) (\<lambda>ts. Inr (ts\<lparr>poss := poss ts @ [row_poss r]\<rparr>)),
        on_team y (WTeamID r) (\<lambda>ts. Inr (ts\<lparr>nOT := nOT ts @ [NumOT r]\<rparr>)),
        on_team y (LTeamID r) (\<lambda>ts. Inr (ts\<lparr>nOT := nOT ts @ [NumOT r]\<rparr>))] s2 = Inr s3"
    and d3: "dom s3 = dom s2"
    and t3: "\<And>y' t'. team_at s3 y' t' =
              (if y' = y \<and> (t' = WTeamID r \<or> t' = LTeamID r)
               then map_option (tail_effect r t') (team_at s2 y' t') else team_at s2 y' t')"
    by blast
  have run: "season_row r st = Inr s3"
    unfolding season_row_def Let_def y_def [symmetric]
    by (subst block_Cons, simp only: sum.case, subst block_Cons, simp only: run1 sum.case,
        subst block_Cons, simp only: run2 sum.case run3)
  have at: "team_at s3 y' t' =
            (if involved y' t' r then Some (row_effect r t' (base t')) else team_at st y' t')" for y' t'
    by (auto simp: t3 t2 t1 involved_def y_def row_effect_def)
  have "wf_stats s3"
  proof (rule wf_statsI)
    fix y' t' ts assume "team_at s3 y' t' = Some ts"
    then show "has_keys STATNAMES ts"
      using kb [of t'] wf_stats_has_keys [OF wf, of y' t' ts]
      by (auto simp: at split: if_splits)
  qed
  moreover have "dom s3 = insert (Season r) (dom st)"
    by (simp add: d3 d2 d1 y_def)
  moreover have "team_at s3 y' t' =
            (if involved y' t' r
             then Some (row_effect r t' (case team_at st y' t' of None \<Rightarrow> new_team | Some ts \<Rightarrow> ts))
             else team_at st y' t')" for y' t'
    by (auto simp: at base_def involved_def y_def)
  ultimately show ?thesis using run by blast
qed

subsection \<open>The loop of compute_season_stats\<close>

lemma team_fold_Nil [simp]: "team_fold y t [] ts = ts"
  by (simp add: team_fold_def)

lemma team_fold_Cons:
  "team_fold y t (r # games) ts =
     team_fold y t games (if involved y t r then row_effect r t ts else ts)"
  by (simp add: team_fold_def)

lemma team_fold_none: "\<forall>r\<in>set games. \<not> involved y t r \<Longrightarrow> team_fold y t games ts = ts"
  by (simp add: team_fold_def)

lemma rows_effect:
  assumes "wf_stats st"
  shows "\<exists>st'. for_each games season_row st = Inr st' \<and> wf_stats st'
      \<and> dom st' = dom st \<union> Season ` set games
      \<and> (\<forall>y t. team_at st' y t =
            (if \<exists>r\<in>set games. involved y t r
             then Some (team_fold y t games (case team_at st y t of None \<Rightarrow> new_team | Some ts \<Rightarrow> ts))
             else team_at st y t))"
  using assms
proof (induction games arbitrary: st)
  case Nil
  then show ?case by simp
next
  case (Cons r games)
  from season_row_effect [OF Cons.prems]
  obtain s1 where run1: "season_row r st = Inr s1" and wf1: "wf_stats s1"
    and d1: "dom s1 = insert (Season r) (dom st)"
    and t1: "\<And>y t. team_at s1 y t =
            (if involved y t r
             then Some (row_effect r t (case team_at st y t of None \<Rightarrow> new_team | Some ts \<Rightarrow> ts))
             else team_at st y t)"
    by blast
  from Cons.IH [OF wf1]
  obtain s2 where run2: "for_each games season_row s1 = Inr s2" and wf2: "wf_stats s2"
    and d2: "dom s2 = dom s1 \<union> Season ` set games"
    and t2: "\<And>y t. team_at s2 y t =
            (if \<exists>r\<in>set games. involved y t r
             then Some (team_fold y t games (case team_at s1 y t of None \<Rightarrow> new_team | Some ts \<Rightarrow> ts))
             else team_at s1 y t)"
    by blast
  have "team_at s2 y t =
            (if \<exists>r\<in>set (r # games). involved y t r
             then Some (team_fold y t (r # games) (case team_at st y t of None \<Rightarrow> new_team | Some ts \<Rightarrow> ts))
             else team_at st y t)" for y t
    by (cases "involved y t r") (auto simp: t2 t1 team_fold_Cons team_fold_none)
  moreover have "dom s2 = dom st \<union> Season ` set (r # games)"
    by (auto simp: d2 d1)
  moreover have "for_each (r # games) season_row st = Inr s2"
    by (simp add: run1 run2)
  ultimately show ?case using wf2 by blast
qed

lemma compute_season_stats_effect:
  "\<exists>st. compute_season_stats games = Inr st
      \<and> dom st = Season ` set games
      \<and> (\<forall>y t. team_at st y t =
            (if \<exists>r\<in>set games. involved y t r then Some (team_fold y t games new_team) else None))"
  using rows_effect [OF wf_stats_empty, of games]
  by (auto simp: compute_season_stats_def)

subsection \<open>History lists\<close>

lemma fold_tot_fields:
  "wins (fold (\<lambda>sn ts. ts\<lparr>tot := G sn ts\<rparr>) sns ts) = wins ts"
  "losses (fold (\<lambda>sn ts. ts\<lparr>tot := G sn ts\<rparr>) sns ts) = losses ts"
  "totOT (fold (\<lambda>sn ts. ts\<lparr>tot := G sn ts\<rparr>) sns ts) = totOT ts"
  "totPoss (fold (\<lambda>sn ts. ts\<lparr>tot := G sn ts\<rparr>) sns ts) = totPoss ts"
  "opps (fold (\<lambda>sn ts. ts\<lparr>tot := G sn ts\<rparr>) sns ts) = opps ts"
  "scores (fold (\<lambda>sn ts. ts\<lparr>tot := G sn ts\<rparr>) sns ts) = scores ts"
  "HA (fold (\<lambda>sn ts. ts\<lparr>tot := G sn ts\<rparr>) sns ts) = HA ts"
  "poss (fold (\<lambda>sn ts. ts\<lparr>tot := G sn ts\<rparr>) sns ts) = poss ts"
  "nOT (fold (\<lambda>sn ts. ts\<lparr>tot := G sn ts\<rparr>) sns ts) = nOT ts"
  by (induction sns arbitrary: ts) simp_all

lemma new_team_fields:
  "wins new_team = 0" "losses new_team = 0" "totOT new_team = 0" "totPoss new_team = Fin 0"
  "opps new_team = []" "scores new_team = []" "HA new_team = []" "poss new_team = []"
  "nOT new_team = []"
  unfolding new_team_def by (simp_all add: fold_tot_fields)

lemma hist_ok_new_team: "hist_ok new_team"
  by (simp add: hist_ok_def new_team_fields)

lemma hist_ok_row_effect: "hist_ok ts \<Longrightarrow> hist_ok (row_effect r t ts)"
  by (simp add: hist_ok_def row_effect_def tail_effect_def add_tots_def)

lemma hist_ok_fold: "hist_ok ts \<Longrightarrow> hist_ok (fold (\<lambda>r. row_effect r t) rs ts)"
  by (induction rs arbitrary: ts) (simp_all add: hist_ok_row_effect)

lemma hist_ok_team_fold: "hist_ok (team_fold y t games new_team)"
  unfolding team_fold_def by (rule hist_ok_fold [OF hist_ok_new_team])

lemma team_at_iff: "team_at st y t = Some ts \<longleftrightarrow> (\<exists>teams. st y = Some teams \<and> teams t = Some ts)"
  by (auto simp: team_at_def split: option.splits)

text \<open>
  C7: after every prefix of the input, \<open>compute_season_stats\<close> returns a mapping, and in
  it each of the five history lists of every (season, team) entry has exactly
  \<open>wins + losses\<close> elements.
\<close>

theorem history_lengths:
  "(\<exists>stats. compute_season_stats (take n df) = Inr stats)
   \<and> (\<forall>stats teams ts.
        compute_season_stats (take n df) = Inr stats \<and> stats year = Some teams \<and> teams tid = Some ts
        \<longrightarrow> int (length (opps ts)) = wins ts + losses ts
          \<and> int (length (scores ts)) = wins ts + losses ts
          \<and> int (length (HA ts)) = wins ts + losses ts
          \<and> int (length (poss ts)) = wins ts + losses ts
          \<and> int (length (nOT ts)) = wins ts + losses ts)"
proof -
  from compute_season_stats_effect [of "take n df"]
  obtain st where run: "compute_season_stats (take n df) = Inr st"
    and at: "\<And>y t. team_at st y t =
            (if \<exists>r\<in>set (take n df). involved y t r
             then Some (team_fold y t (take n df) new_team) else None)"
    by blast
  have "hist_ok ts" if "st year = Some teams" and "teams tid = Some ts" for teams ts
  proof -
    from that have "team_at st year tid = Some ts"
      by (auto simp: team_at_iff)
    then have "ts = team_fold year tid (take n df) new_team"
      by (auto simp: at split: if_splits)
    then show ?thesis
      by (simp add: hist_ok_team_fold)
  qed
  then show ?thesis
    using run by (auto simp: hist_ok_def)
qed


subsection \<open>Totals as sums over the games\<close>

lemma fold_wins:
  "wins (fold (\<lambda>r. row_effect r t) rs ts) =
     wins ts + (\<Sum>r\<leftarrow>rs. if t = WTeamID r then 1 else 0)"
  by (induction rs arbitrary: ts) (simp_all add: row_effect_def tail_effect_def add_tots_def)

lemma fold_losses:
  "losses (fold (\<lambda>r. row_effect r t) rs ts) =
     losses ts + (\<Sum>r\<leftarrow>rs. if t = LTeamID r then 1 else 0)"
  by (induction rs arbitrary: ts) (simp_all add: row_effect_def tail_effect_def add_tots_def)

lemma fold_totOT:
  "totOT (fold (\<lambda>r. row_effect r t) rs ts) =
     totOT ts + (\<Sum>r\<leftarrow>rs. (if t = WTeamID r then NumOT r else 0)
                         + (if t = LTeamID r then NumOT r else 0))"
  by (induction rs arbitrary: ts) (simp_all add: row_effect_def tail_effect_def add_tots_def)

lemma fold_totPoss:
  "totPoss (fold (\<lambda>r. row_effect r t) rs ts) =
     foldl float_add (totPoss ts)
       (concat (map (\<lambda>r. (if t = WTeamID r then [row_poss r] else [])
                         @ (if t = LTeamID r then [row_poss r] else [])) rs))"
  by (induction rs arbitrary: ts) (simp_all add: row_effect_def tail_effect_def add_tots_def)

lemma fold_tot:
  "tot (fold (\<lambda>r. row_effect r t) rs ts) =
     (\<lambda>k. map_option (\<lambda>x. x + (\<Sum>r\<leftarrow>rs. tot_delta STATNAMES r t k)) (tot ts k))"
  by (induction rs arbitrary: ts)
    (simp_all add: row_effect_def tail_effect_def add_tots_def option.map_ident
      option.map_comp comp_def add.assoc)

lemma fold_opps:
  "opps (fold (\<lambda>r. row_effect r t) rs ts) =
     opps ts @ concat (map (\<lambda>r. (if t = WTeamID r then [LTeamID r] else [])
                               @ (if t = LTeamID r then [WTeamID r] else [])) rs)"
  by (induction rs arbitrary: ts) (simp_all add: row_effect_def tail_effect_def add_tots_def)

lemma fold_scores:
  "scores (fold (\<lambda>r. row_effect r t) rs ts) =
     scores ts @ concat (map (\<lambda>r.
         (if t = WTeamID r then [(stat r ''WScore'', stat r ''LScore'')] else [])
       @ (if t = LTeamID r then [(stat r ''LScore'', stat r ''WScore'')] else [])) rs)"
  by (induction rs arbitrary: ts) (simp_all add: row_effect_def tail_effect_def add_tots_def)

lemma fold_HA:
  "HA (fold (\<lambda>r. row_effect r t) rs ts) =
     HA ts @ concat (map (\<lambda>r. (if t = WTeamID r then [WLoc r] else [])
                             @ (if t = LTeamID r then [flipped_loc (WLoc r)] else [])) rs)"
  by (induction rs arbitrary: ts) (simp_all add: row_effect_def tail_effect_def add_tots_def)

lemma fold_poss:
  "poss (fold (\<lambda>r. row_effect r t) rs ts) =
     poss ts @ concat (map (\<lambda>r. (if t = WTeamID r then [row_poss r] else [])
                               @ (if t = LTeamID r then [row_poss r] else [])) rs)"
  by (induction rs arbitrary: ts) (simp_all add: row_effect_def tail_effect_def add_tots_def)

lemma fold_nOT:
  "nOT (fold (\<lambda>r. row_effect r t) rs ts) =
     nOT ts @ concat (map (\<lambda>r. (if t = WTeamID r then [NumOT r] else [])
                              @ (if t = LTeamID r then [NumOT r] else [])) rs)"
  by (induction rs arbitrary: ts) (simp_all add: row_effect_def tail_effect_def add_tots_def)

lemma sum_list_perm:
  fixes f :: "'a \<Rightarrow> 'b::comm_monoid_add"
  assumes "mset xs = mset ys"
  shows "sum_list (map f xs) = sum_list (map f ys)"
proof -
  have "sum_list (map f xs) = sum_mset (image_mset f (mset xs))"
    by (simp flip: sum_mset_sum_list)
  also have "\<dots> = sum_mset (image_mset f (mset ys))"
    by (simp add: assms)
  also have "\<dots> = sum_list (map f ys)"
    by (simp flip: sum_mset_sum_list)
  finally show ?thesis .
qed

lemma mset_concat_perm:
  assumes "mset xs = mset ys"
  shows "mset (concat (map g xs)) = mset (concat (map g ys))"
  unfolding mset_concat map_map by (rule sum_list_perm [OF assms])

text \<open>The scalar fields and the history lists, up to order, of two folds over permuted games.\<close>

lemma fold_perm:
  fixes t :: string and ts :: team_stats
  assumes perm: "mset rs = mset rs'"
  defines "a \<equiv> fold (\<lambda>r. row_effect r t) rs ts"
    and "b \<equiv> fold (\<lambda>r. row_effect r t) rs' ts"
  shows "wins a = wins b" "losses a = losses b" "totOT a = totOT b"
    "tot a = tot b" "mset (opps a) = mset (opps b)" "mset (scores a) = mset (scores b)"
    "mset (HA a) = mset (HA b)" "mset (poss a) = mset (poss b)" "mset (nOT a) = mset (nOT b)"
  unfolding a_def b_def fold_wins fold_losses fold_totOT fold_tot
    fold_opps fold_scores fold_HA fold_poss fold_nOT
  by (simp_all add: sum_list_perm [OF perm] mset_concat_perm [OF perm])

text \<open>The running total is the sum, from the left, of the list of possessions.\<close>

lemma totPoss_team_fold:
  "totPoss (team_fold y t games new_team)
     = foldl float_add (Fin 0) (poss (team_fold y t games new_team))"
  unfolding team_fold_def fold_totPoss fold_poss by (simp add: new_team_fields)


lemma team_at_dom_iff: "(\<exists>t. team_at st y t \<noteq> None) \<Longrightarrow> y \<in> dom st"
  by (auto simp: team_at_def split: option.splits)

text \<open>
  C3, as the code has it: for two inputs that are permutations of each other,
  \<open>compute_season_stats\<close> returns mappings with the same (season, team) keys, in which
  the integer fields of an entry (\<open>wins\<close>, \<open>losses\<close>, \<open>totOT\<close> and the 28 totals in
  \<open>tot\<close>) are identical and every history list has the same elements, in a possibly
  different order. \<open>totPoss\<close> is the float sum of the entry's \<open>poss\<close> list, added to
  \<open>0\<close> from the left in the order of the list: the two totals are sums of the same
  floats in a possibly different order, and float addition rounds, so they can differ.
\<close>

theorem season_stats_permutation:
  assumes "mset df = mset df'"
  shows "\<exists>stats stats'.
      compute_season_stats df = Inr stats \<and> compute_season_stats df' = Inr stats'
      \<and> dom stats = dom stats'
      \<and> (\<forall>year teams. stats year = Some teams \<longrightarrow>
            (\<exists>teams'. stats' year = Some teams' \<and> dom teams' = dom teams
               \<and> (\<forall>tid ts. teams tid = Some ts \<longrightarrow>
                    (\<exists>ts'. teams' tid = Some ts'
                       \<and> wins ts' = wins ts \<and> losses ts' = losses ts \<and> totOT ts' = totOT ts
                       \<and> tot ts' = tot ts
                       \<and> totPoss ts = foldl float_add (Fin 0) (poss ts)
                       \<and> totPoss ts' = foldl float_add (Fin 0) (poss ts')
                       \<and> mset (opps ts') = mset (opps ts) \<and> mset (scores ts') = mset (scores ts)
                       \<and> mset (HA ts') = mset (HA ts) \<and> mset (poss ts') = mset (poss ts)
                       \<and> mset (nOT ts') = mset (nOT ts)))))"
proof -
  from compute_season_stats_effect [of df]
  obtain st where run: "compute_season_stats df = Inr st" and d: "dom st = Season ` set df"
    and at: "\<And>y t. team_at st y t =
            (if \<exists>r\<in>set df. involved y t r then Some (team_fold y t df new_team) else None)"
    by blast
  from compute_season_stats_effect [of df']
  obtain st' where run': "compute_season_stats df' = Inr st'" and d': "dom st' = Season ` set df'"
    and at': "\<And>y t. team_at st' y t =
            (if \<exists>r\<in>set df'. involved y t r then Some (team_fold y t df' new_team) else None)"
    by blast
  have sets: "set df' = set df"
    using assms by (metis set_mset_mset)
  have filt: "mset (filter (involved y t) df') = mset (filter (involved y t) df)" for y t
    using assms by simp
  have doms: "dom st = dom st'"
    by (simp add: d d' sets)
  have inner: "\<exists>teams'. st' year = Some teams' \<and> dom teams' = dom teams
               \<and> (\<forall>tid ts. teams tid = Some ts \<longrightarrow>
                    (\<exists>ts'. teams' tid = Some ts'
                       \<and> wins ts' = wins ts \<and> losses ts' = losses ts \<and> totOT ts' = totOT ts
                       \<and> tot ts' = tot ts
                       \<and> totPoss ts = foldl float_add (Fin 0) (poss ts)
                       \<and> totPoss ts' = foldl float_add (Fin 0) (poss ts')
                       \<and> mset (opps ts') = mset (opps ts) \<and> mset (scores ts') = mset (scores ts)
                       \<and> mset (HA ts') = mset (HA ts) \<and> mset (poss ts') = mset (poss ts)
                       \<and> mset (nOT ts') = mset (nOT ts)))"
    if yt: "st year = Some teams" for year teams
  proof -
    from yt doms obtain teams' where yt': "st' year = Some teams'"
      by (metis domD domI)
    have t: "teams tid = team_at st year tid" and t': "teams' tid = team_at st' year tid" for tid
      using yt yt' by (simp_all add: team_at_def)
    have "dom teams' = dom teams"
      by (auto simp: t t' at at' sets split: if_splits)
    moreover have "\<exists>ts'. teams' tid = Some ts'
                       \<and> wins ts' = wins ts \<and> losses ts' = losses ts \<and> totOT ts' = totOT ts
                       \<and> tot ts' = tot ts
                       \<and> totPoss ts = foldl float_add (Fin 0) (poss ts)
                       \<and> totPoss ts' = foldl float_add (Fin 0) (poss ts')
                       \<and> mset (opps ts') = mset (opps ts) \<and> mset (scores ts') = mset (scores ts)
                       \<and> mset (HA ts') = mset (HA ts) \<and> mset (poss ts') = mset (poss ts)
                       \<and> mset (nOT ts') = mset (nOT ts)"
      if "teams tid = Some ts" for tid ts
    proof -
      from that have inv: "\<exists>r\<in>set df. involved year tid r"
        and ts: "ts = team_fold year tid df new_team"
        by (auto simp: t at split: if_splits)
      from inv have ts': "teams' tid = Some (team_fold year tid df' new_team)"
        by (simp add: t' at' sets)
      have "wins (team_fold year tid df' new_team) = wins (team_fold year tid df new_team)"
        "losses (team_fold year tid df' new_team) = losses (team_fold year tid df new_team)"
        "totOT (team_fold year tid df' new_team) = totOT (team_fold year tid df new_team)"
        "tot (team_fold year tid df' new_team) = tot (team_fold year tid df new_team)"
        "mset (opps (team_fold year tid df' new_team)) = mset (opps (team_fold year tid df new_team))"
        "mset (scores (team_fold year tid df' new_team)) = mset (scores (team_fold year tid df new_team))"
        "mset (HA (team_fold year tid df' new_team)) = mset (HA (team_fold year tid df new_team))"
        "mset (poss (team_fold year tid df' new_team)) = mset (poss (team_fold year tid df new_team))"
        "mset (nOT (team_fold year tid df' new_team)) = mset (nOT (team_fold year tid df new_team))"
        unfolding team_fold_def
        using fold_perm [OF filt [of year tid], of tid new_team] by simp_all
      then show ?thesis
        unfolding ts
        using ts' totPoss_team_fold [of year tid df] totPoss_team_fold [of year tid df']
        by simp
    qed
    ultimately show ?thesis using yt' by blast
  qed
  show ?thesis
    using run run' doms inner by blast
qed


lemma binade_numeral:
  "binade (numeral k) x e =
     (if 2 powi (e + 1) \<le> x then binade (pred_numeral k) x (e + 1)
      else if x < 2 powi e \<and> - 1022 < e then binade (pred_numeral k) x (e - 1)
      else e)"
  by (simp add: numeral_eq_Suc)

lemma powi_eval:
  "(2::real) powi (numeral k) = 2 ^ numeral k"
  "(2::real) powi (- numeral k) = 1 / 2 ^ numeral k"
  "(2::real) powi 0 = 1" "(2::real) powi 1 = 2" "(2::real) powi (- 1) = 1 / 2"
  by (simp_all add: power_int_def field_simps)

lemmas to_double_eval = to_double_def binade_numeral round_even_def Let_def powi_eval

lemma float_add_examples:
  "float_add (Fin 0) (Fin 70) = Fin 70" "float_add (Fin 70) (Fin 65) = Fin 135"
  "float_add (Fin 0) (Fin 65) = Fin 65" "float_add (Fin 65) (Fin 70) = Fin 135"
  by (simp_all add: to_double_eval)

lemma game_p_sel:
  "WTeamID game_p1 = ''purdue''" "LTeamID game_p1 = ''indiana''"
  "WTeamID game_p2 = ''purdue''" "LTeamID game_p2 = ''iowa''"
  "WTeamID game_p3 = ''purdue''" "LTeamID game_p3 = ''illinois''"
  "row_poss game_p1 = Fin (2721159337350267 / 35184372088832)"
  "row_poss game_p2 = Fin (5041216832887849 / 70368744177664)"
  "row_poss game_p3 = Fin (8829870019413279 / 140737488355328)"
  by (simp_all add: game_p1_def game_p2_def game_p3_def)

lemma involved_examples:
  "involved y t game_a = (y = 2020 \<and> (t = ''purdue'' \<or> t = ''indiana''))"
  "involved y t game_b = (y = 2020 \<and> (t = ''iowa'' \<or> t = ''purdue''))"
  "involved y t game_blank_loc = (y = 2020 \<and> (t = ''purdue'' \<or> t = ''indiana''))"
  "involved y t game_p1 = (y = 2020 \<and> (t = ''purdue'' \<or> t = ''indiana''))"
  "involved y t game_p2 = (y = 2020 \<and> (t = ''purdue'' \<or> t = ''iowa''))"
  "involved y t game_p3 = (y = 2020 \<and> (t = ''purdue'' \<or> t = ''illinois''))"
  by (auto simp: involved_def game_a_def game_b_def game_blank_loc_def game_p1_def game_p2_def
      game_p3_def)

lemma team_atD: "team_at st y t = Some ts \<Longrightarrow> \<exists>teams. st y = Some teams \<and> teams t = Some ts"
  by (simp add: team_at_iff)

theorem season_stats_permutation_witness:
  "\<exists>stats stats' teams teams' ts ts'.
      compute_season_stats [game_a, game_b] = Inr stats
      \<and> compute_season_stats [game_b, game_a] = Inr stats'
      \<and> stats 2020 = Some teams \<and> stats' 2020 = Some teams'
      \<and> teams ''purdue'' = Some ts \<and> teams' ''purdue'' = Some ts'
      \<and> wins ts = 1 \<and> wins ts' = 1 \<and> losses ts = 1 \<and> losses ts' = 1
      \<and> totPoss ts = Fin 135 \<and> totPoss ts' = Fin 135 \<and> tot ts' = tot ts
      \<and> opps ts = [''indiana'', ''iowa''] \<and> opps ts' = [''iowa'', ''indiana'']
      \<and> mset (opps ts) = mset (opps ts')"
proof -
  have m: "mset [game_a, game_b] = mset [game_b, game_a]"
    by simp
  from season_stats_permutation [OF m]
  obtain stats stats' where run: "compute_season_stats [game_a, game_b] = Inr stats"
    and run': "compute_season_stats [game_b, game_a] = Inr stats'"
    and rel: "\<And>year teams. stats year = Some teams \<Longrightarrow>
            (\<exists>teams'. stats' year = Some teams' \<and> dom teams' = dom teams
               \<and> (\<forall>tid ts. teams tid = Some ts \<longrightarrow>
                    (\<exists>ts'. teams' tid = Some ts'
                       \<and> wins ts' = wins ts \<and> losses ts' = losses ts \<and> totOT ts' = totOT ts
                       \<and> tot ts' = tot ts
                       \<and> totPoss ts = foldl float_add (Fin 0) (poss ts)
                       \<and> totPoss ts' = foldl float_add (Fin 0) (poss ts')
                       \<and> mset (opps ts') = mset (opps ts) \<and> mset (scores ts') = mset (scores ts)
                       \<and> mset (HA ts') = mset (HA ts) \<and> mset (poss ts') = mset (poss ts)
                       \<and> mset (nOT ts') = mset (nOT ts))))"
    by blast
  from compute_season_stats_effect [of "[game_a, game_b]"] run
  have "team_at stats 2020 ''purdue'' = Some (team_fold 2020 ''purdue'' [game_a, game_b] new_team)"
    by (auto simp: involved_examples)
  then obtain teams where yt: "stats 2020 = Some teams"
    and ts: "teams ''purdue'' = Some (team_fold 2020 ''purdue'' [game_a, game_b] new_team)"
    by (auto dest: team_atD)
  from compute_season_stats_effect [of "[game_b, game_a]"] run'
  have "team_at stats' 2020 ''purdue'' = Some (team_fold 2020 ''purdue'' [game_b, game_a] new_team)"
    by (auto simp: involved_examples)
  then obtain teams' where yt': "stats' 2020 = Some teams'"
    and ts': "teams' ''purdue'' = Some (team_fold 2020 ''purdue'' [game_b, game_a] new_team)"
    by (auto dest: team_atD)
  from rel [OF yt] yt' obtain ts0 where "teams' ''purdue'' = Some ts0"
    and "tot ts0 = tot (team_fold 2020 ''purdue'' [game_a, game_b] new_team)"
    using ts by fastforce
  with ts' have same: "tot (team_fold 2020 ''purdue'' [game_b, game_a] new_team)
      = tot (team_fold 2020 ''purdue'' [game_a, game_b] new_team)"
    by auto
  have vals: "wins (team_fold 2020 ''purdue'' [game_a, game_b] new_team) = 1"
    "wins (team_fold 2020 ''purdue'' [game_b, game_a] new_team) = 1"
    "losses (team_fold 2020 ''purdue'' [game_a, game_b] new_team) = 1"
    "losses (team_fold 2020 ''purdue'' [game_b, game_a] new_team) = 1"
    "totPoss (team_fold 2020 ''purdue'' [game_a, game_b] new_team) = Fin 135"
    "totPoss (team_fold 2020 ''purdue'' [game_b, game_a] new_team) = Fin 135"
    "opps (team_fold 2020 ''purdue'' [game_a, game_b] new_team) = [''indiana'', ''iowa'']"
    "opps (team_fold 2020 ''purdue'' [game_b, game_a] new_team) = [''iowa'', ''indiana'']"
    unfolding team_fold_def fold_wins fold_losses fold_totPoss fold_opps
    by (simp_all add: involved_examples)
      (simp_all add: new_team_fields game_a_def game_b_def float_add_examples
        del: float_add.simps)
  show ?thesis
    using run run' yt yt' ts ts' same vals by simp
qed

theorem season_stats_permutation_counterexample:
  "mset [game_p1, game_p2, game_p3] = mset [game_p3, game_p2, game_p1]
   \<and> totPoss_of (compute_season_stats [game_p1, game_p2, game_p3]) 2020 ''purdue''
       = Some (Fin (931154407330939 / 4398046511104))
   \<and> totPoss_of (compute_season_stats [game_p3, game_p2, game_p1]) 2020 ''purdue''
       = Some (Fin (7449235258647511 / 35184372088832))
   \<and> Fin (931154407330939 / 4398046511104) \<noteq> Fin (7449235258647511 / 35184372088832)"
proof -
  from compute_season_stats_effect [of "[game_p1, game_p2, game_p3]"]
  obtain st where run: "compute_season_stats [game_p1, game_p2, game_p3] = Inr st"
    and at: "team_at st 2020 ''purdue''
        = Some (team_fold 2020 ''purdue'' [game_p1, game_p2, game_p3] new_team)"
    by (auto simp: involved_examples)
  from compute_season_stats_effect [of "[game_p3, game_p2, game_p1]"]
  obtain st' where run': "compute_season_stats [game_p3, game_p2, game_p1] = Inr st'"
    and at': "team_at st' 2020 ''purdue''
        = Some (team_fold 2020 ''purdue'' [game_p3, game_p2, game_p1] new_team)"
    by (auto simp: involved_examples)
  have s1: "float_add (Fin 0) (Fin (2721159337350267 / 35184372088832))
      = Fin (2721159337350267 / 35184372088832)"
    by (simp add: to_double_eval)
  have s2: "float_add (Fin (2721159337350267 / 35184372088832))
        (Fin (5041216832887849 / 70368744177664)) = Fin (327610484612137 / 2199023255552)"
    by (simp add: to_double_eval)
  have s3: "float_add (Fin (327610484612137 / 2199023255552))
        (Fin (8829870019413279 / 140737488355328)) = Fin (931154407330939 / 4398046511104)"
    by (simp add: to_double_eval)
  have r1: "float_add (Fin 0) (Fin (8829870019413279 / 140737488355328))
      = Fin (8829870019413279 / 140737488355328)"
    by (simp add: to_double_eval)
  have r2: "float_add (Fin (8829870019413279 / 140737488355328))
        (Fin (5041216832887849 / 70368744177664)) = Fin (1182018980324311 / 8796093022208)"
    by (simp add: to_double_eval)
  have r3: "float_add (Fin (1182018980324311 / 8796093022208))
        (Fin (2721159337350267 / 35184372088832)) = Fin (7449235258647511 / 35184372088832)"
    by (simp add: to_double_eval)
  have "totPoss (team_fold 2020 ''purdue'' [game_p1, game_p2, game_p3] new_team)
      = Fin (931154407330939 / 4398046511104)"
    unfolding team_fold_def fold_totPoss
    by (simp add: involved_examples new_team_fields game_p_sel s1 s2 s3 del: float_add.simps)
  with run at have a: "totPoss_of (compute_season_stats [game_p1, game_p2, game_p3]) 2020 ''purdue''
      = Some (Fin (931154407330939 / 4398046511104))"
    by (auto simp: totPoss_of_def team_at_def split: option.splits)
  have "totPoss (team_fold 2020 ''purdue'' [game_p3, game_p2, game_p1] new_team)
      = Fin (7449235258647511 / 35184372088832)"
    unfolding team_fold_def fold_totPoss
    by (simp add: involved_examples new_team_fields game_p_sel r1 r2 r3 del: float_add.simps)
  with run' at' have b: "totPoss_of (compute_season_stats [game_p3, game_p2, game_p1]) 2020 ''purdue''
      = Some (Fin (7449235258647511 / 35184372088832))"
    by (auto simp: totPoss_of_def team_at_def split: option.splits)
  show ?thesis
    using a b by simp
qed

theorem history_lengths_witness:
  "\<exists>stats teams ts.
      compute_season_stats (take 1 [game_a, game_b]) = Inr stats
      \<and> stats 2020 = Some teams \<and> teams ''indiana'' = Some ts
      \<and> wins ts = 0 \<and> losses ts = 1
      \<and> length (opps ts) = 1 \<and> length (scores ts) = 1 \<and> length (HA ts) = 1
      \<and> length (poss ts) = 1 \<and> length (nOT ts) = 1"
proof -
  from history_lengths [of 1 "[game_a, game_b]" 2020 "''indiana''"]
  obtain stats where run: "compute_season_stats (take 1 [game_a, game_b]) = Inr stats"
    and len: "\<And>teams ts. stats 2020 = Some teams \<Longrightarrow> teams ''indiana'' = Some ts
        \<Longrightarrow> int (length (opps ts)) = wins ts + losses ts
          \<and> int (length (scores ts)) = wins ts + losses ts
          \<and> int (length (HA ts)) = wins ts + losses ts
          \<and> int (length (poss ts)) = wins ts + losses ts
          \<and> int (length (nOT ts)) = wins ts + losses ts"
    by blast
  from compute_season_stats_effect [of "[game_a]"] run
  have "team_at stats 2020 ''indiana'' = Some (team_fold 2020 ''indiana'' [game_a] new_team)"
    by (auto simp: involved_examples)
  then obtain teams where yt: "stats 2020 = Some teams"
    and ts: "teams ''indiana'' = Some (team_fold 2020 ''indiana'' [game_a] new_team)"
    by (auto dest: team_atD)
  have vals: "wins (team_fold 2020 ''indiana'' [game_a] new_team) = 0"
    "losses (team_fold 2020 ''indiana'' [game_a] new_team) = 1"
    unfolding team_fold_def fold_wins fold_losses
    by (simp_all add: involved_examples) (simp_all add: new_team_fields game_a_def)
  from len [OF yt ts] vals yt ts run show ?thesis
    by simp
qed


subsection \<open>The loser's location\<close>

lemma flipped_loc_eq:
  "flipped_loc w =
     (if w \<in> {''A'', [], ''AN'', ''ANH''} then ''H'' else if w \<in> {''N'', ''NH''} then ''N'' else ''A'')"
  by (simp add: flipped_loc_def loser_HA_def find_ANH py_getitem_def)

lemma HA_last_row:
  "HA (team_fold (Season row) (LTeamID row) (df @ [row]) ts) \<noteq> []
   \<and> last (HA (team_fold (Season row) (LTeamID row) (df @ [row]) ts)) = flipped_loc (WLoc row)"
  unfolding team_fold_def fold_HA by (simp add: involved_def)

text \<open>
  C9, as the code has it: \<open>compute_season_stats\<close> never raises on the location, whatever
  string \<open>WLoc\<close> is, and the entry appended to the loser's \<open>HA\<close> list is
  \<open>'HNA'['ANH'.find(WLoc)]\<close>. That is the winner's location flipped for \<open>A\<close>, \<open>N\<close>
  and \<open>H\<close>. \<open>find\<close> searches for a substring, so it returns \<open>-1\<close>, and the entry is
  \<open>A\<close>, exactly for the strings that do not occur in \<open>ANH\<close>; for the empty string,
  \<open>AN\<close> and \<open>ANH\<close> it returns 0 and the entry is \<open>H\<close>, for \<open>NH\<close> it returns 1 and the
  entry is \<open>N\<close>.
\<close>

theorem loser_location:
  "\<exists>stats teams ts.
      compute_season_stats (df @ [row]) = Inr stats
      \<and> stats (Season row) = Some teams \<and> teams (LTeamID row) = Some ts
      \<and> HA ts \<noteq> [] \<and> loser_HA (WLoc row) = Inr (last (HA ts))
      \<and> last (HA ts) =
          (if WLoc row \<in> {''A'', [], ''AN'', ''ANH''} then ''H''
           else if WLoc row \<in> {''N'', ''NH''} then ''N'' else ''A'')
      \<and> py_find ''ANH'' (WLoc row) =
          (if WLoc row \<in> {''A'', [], ''AN'', ''ANH''} then 0
           else if WLoc row \<in> {''N'', ''NH''} then 1
           else if WLoc row = ''H'' then 2 else - 1)"
proof -
  from compute_season_stats_effect [of "df @ [row]"]
  obtain st where run: "compute_season_stats (df @ [row]) = Inr st"
    and at: "\<And>y t. team_at st y t =
            (if \<exists>r\<in>set (df @ [row]). involved y t r
             then Some (team_fold y t (df @ [row]) new_team) else None)"
    by blast
  have "team_at st (Season row) (LTeamID row)
      = Some (team_fold (Season row) (LTeamID row) (df @ [row]) new_team)"
    by (simp add: at involved_def)
  then obtain teams where yt: "st (Season row) = Some teams"
    and ts: "teams (LTeamID row) = Some (team_fold (Season row) (LTeamID row) (df @ [row]) new_team)"
    by (auto dest: team_atD)
  have f: "py_find ''ANH'' (WLoc row) =
          (if WLoc row \<in> {''A'', [], ''AN'', ''ANH''} then 0
           else if WLoc row \<in> {''N'', ''NH''} then 1
           else if WLoc row = ''H'' then 2 else - 1)"
    by (simp add: find_ANH)
  show ?thesis
    using run yt ts HA_last_row [of row df new_team] loser_HA_total [of "WLoc row"]
      flipped_loc_eq [of "WLoc row"] f
    by (intro exI [of _ st] exI [of _ teams]
        exI [of _ "team_fold (Season row) (LTeamID row) (df @ [row]) new_team"]) simp
qed

theorem loser_location_witness:
  "\<exists>stats teams ts.
      compute_season_stats ([game_a] @ [game_b]) = Inr stats
      \<and> stats 2020 = Some teams \<and> teams ''purdue'' = Some ts
      \<and> WLoc game_b = ''N'' \<and> last (HA ts) = ''N'' \<and> py_find ''ANH'' ''N'' = 1"
  using loser_location [of "[game_a]" game_b]
  by (simp add: game_b_def) blast

theorem loser_location_counterexample:
  "[] \<notin> {''A'', ''N'', ''H''} \<and> py_find ''ANH'' [] = 0 \<and> loser_HA [] = Inr ''H''
   \<and> HA_of (compute_season_stats [game_blank_loc]) 2020 ''indiana'' = Some [''H'']
   \<and> ''NH'' \<notin> {''A'', ''N'', ''H''} \<and> py_find ''ANH'' ''NH'' = 1 \<and> loser_HA ''NH'' = Inr ''N''"
proof -
  from compute_season_stats_effect [of "[game_blank_loc]"]
  obtain st where run: "compute_season_stats [game_blank_loc] = Inr st"
    and at: "team_at st 2020 ''indiana'' = Some (team_fold 2020 ''indiana'' [game_blank_loc] new_team)"
    by (auto simp: involved_examples)
  have "HA (team_fold 2020 ''indiana'' [game_blank_loc] new_team) = [''H'']"
    unfolding team_fold_def fold_HA
    by (simp add: involved_examples) (simp add: new_team_fields game_blank_loc_def flipped_loc_eq)
  with run at have "HA_of (compute_season_stats [game_blank_loc]) 2020 ''indiana'' = Some [''H'']"
    by (auto simp: HA_of_def team_at_def split: option.splits)
  then show ?thesis
    by (simp add: find_ANH loser_HA_def py_getitem_def)
qed

subsection \<open>compile_training_data\<close>







lemma ranked_sel [simp]:
  "Season (ranked g) = Season g" "WTeamID (ranked g) = WTeamID g" "LTeamID (ranked g) = LTeamID g"
  "WLoc (ranked g) = WLoc g" "NumOT (ranked g) = NumOT g" "row_poss (ranked g) = row_poss g"
  "stat (ranked g) = stat g"
  by (simp_all add: ranked_def game.defs ranked_game.defs)








subsection \<open>add_advanced_stats\<close>

lemma and_then_simps [simp]:
  "and_then (Inr x) f = f x" "and_then (Inl e) f = Inl e"
  by (simp_all add: and_then_def)

lemma eval_ok:
  assumes "frame_ok n df" and "cols e \<subseteq> dom df"
  shows "\<exists>col. eval df e = Inr col \<and> length col = n
           \<and> (\<forall>i<n. col ! i = eval_row (cell df i) e)"
  using assms(2)
proof (induction e)
  case (Col name)
  then obtain col where "df name = Some col" by auto
  with assms(1) show ?case by (auto simp: frame_ok_def cell_def)
qed fastforce+

lemma assign_ok:
  assumes "frame_ok n df" and "cols e \<subseteq> dom df"
  shows "\<exists>df'. assign name e df = Inr df' \<and> frame_ok n df' \<and> dom df' = insert name (dom df)
           \<and> (\<forall>i<n. cell df' i = (cell df i)(name := eval_row (cell df i) e))"
proof -
  from eval_ok [OF assms] obtain col where e: "eval df e = Inr col" and l: "length col = n"
    and v: "\<And>i. i < n \<Longrightarrow> col ! i = eval_row (cell df i) e"
    by blast
  have "frame_ok n (df(name \<mapsto> col))"
    using assms(1) l by (auto simp: frame_ok_def)
  moreover have "cell (df(name \<mapsto> col)) i = (cell df i)(name := eval_row (cell df i) e)" if "i < n" for i
    using v [OF that] by (auto simp: cell_def fun_eq_iff)
  ultimately show ?thesis
    by (auto simp: assign_def e)
qed

lemma block_Cons_eq: "block (f # fs) s = and_then (f s) (block fs)"
  by (simp add: block_def and_then_def)

lemma block_append: "block (fs @ gs) s = and_then (block fs s) (block gs)"
  by (induction fs arbitrary: s) (auto simp: block_Nil block_Cons_eq and_then_def split: sum.splits)

lemma prog_ok:
  assumes "frame_ok n df" and "reads_ok prog (dom df)"
  shows "\<exists>df'. block (map (\<lambda>(name, e). assign name e) prog) df = Inr df' \<and> frame_ok n df'
           \<and> dom df' = dom df \<union> fst ` set prog
           \<and> (\<forall>i<n. cell df' i = run_row prog (cell df i))"
  using assms
proof (induction prog arbitrary: df)
  case Nil
  then show ?case by (simp add: block_Nil run_row_def)
next
  case (Cons p prog)
  obtain name e where p: "p = (name, e)" by (cases p)
  from Cons.prems p have c: "cols e \<subseteq> dom df" and r: "reads_ok prog (insert name (dom df))"
    by simp_all
  from assign_ok [OF Cons.prems(1) c, of name]
  obtain df1 where a1: "assign name e df = Inr df1" and ok1: "frame_ok n df1"
    and d1: "dom df1 = insert name (dom df)"
    and v1: "\<And>i. i < n \<Longrightarrow> cell df1 i = (cell df i)(name := eval_row (cell df i) e)"
    by blast
  from Cons.IH [OF ok1] r d1
  obtain df2 where a2: "block (map (\<lambda>(name, e). assign name e) prog) df1 = Inr df2"
    and ok2: "frame_ok n df2" and d2: "dom df2 = dom df1 \<union> fst ` set prog"
    and v2: "\<And>i. i < n \<Longrightarrow> cell df2 i = run_row prog (cell df1 i)"
    by auto
  have "cell df2 i = run_row (p # prog) (cell df i)" if "i < n" for i
    using v1 [OF that] v2 [OF that] by (simp add: p run_row_def)
  moreover have "dom df2 = dom df \<union> fst ` set (p # prog)"
    by (auto simp: d2 d1 p)
  ultimately show ?case
    using a1 a2 ok2 by (simp add: p block_Cons_eq)
qed

lemma add_advanced_stats_prog:
  "add_advanced_stats = block (map (\<lambda>(name, e). assign name e) advanced_prog)"
proof
  fix df
  have s: "advanced_side ''T'' = block (map (\<lambda>(name, e). assign name e) (side_prog ''T'' ''O''))"
    "advanced_side ''O'' = block (map (\<lambda>(name, e). assign name e) (side_prog ''O'' ''T''))"
    by (simp_all add: advanced_side_def side_prog_def)
  show "add_advanced_stats df = block (map (\<lambda>(name, e). assign name e) advanced_prog) df"
    unfolding add_advanced_stats_def advanced_prog_def map_append block_append s [symmetric]
    by (simp add: block_Cons_eq block_Nil and_then_def split: sum.splits)
qed


lemma reads_ok_mono: "reads_ok prog D \<Longrightarrow> D \<subseteq> D' \<Longrightarrow> reads_ok prog D'"
proof (induction prog arbitrary: D D')
  case Nil
  then show ?case by simp
next
  case (Cons p prog)
  obtain name e where p: "p = (name, e)" by (cases p)
  from Cons.prems have "reads_ok prog (insert name D)" and "cols e \<subseteq> D'"
    by (auto simp: p)
  moreover from Cons.prems(2) have "insert name D \<subseteq> insert name D'" by auto
  ultimately show ?case
    using Cons.IH by (simp add: p)
qed

lemma reads_ok_advanced: "reads_ok advanced_prog (set input_columns)"
  by (simp add: advanced_prog_def side_prog_def input_columns_def)

lemma run_row_advanced:
  fixes r :: "string \<Rightarrow> pyfloat"
  defines "r' \<equiv> run_row advanced_prog r"
  assumes c: "c = ''T'' \<and> opp = ''O'' \<or> c = ''O'' \<and> opp = ''T''"
  shows "r' (c @ ''poss'') =
           fadd (fsub (fadd (r (c @ ''FGA'')) (fmul (Fin 0.44) (r (c @ ''FTA'')))) (r (c @ ''OR'')))
                (r (c @ ''TO''))"
    and "r' (c @ ''eff'') = fdiv (fmul (Fin 100) (r (c @ ''Score''))) (r' (c @ ''poss''))"
    and "r' (c @ ''astr'') =
           fdiv (r (c @ ''Ast''))
                (fadd (fadd (fadd (r (c @ ''FGA'')) (fmul (Fin 0.44) (r (c @ ''FTA''))))
                            (r (c @ ''Ast'')))
                      (r (c @ ''TO'')))"
    and "r' (c @ ''tovr'') =
           fdiv (r (c @ ''TO''))
                (fadd (fadd (r (c @ ''FGA'')) (fmul (Fin 0.44) (r (c @ ''FTA'')))) (r (c @ ''TO'')))"
    and "r' (c @ ''efgp'') =
           fdiv (fadd (r (c @ ''FGM'')) (fmul (Fin 0.5) (r (c @ ''FGM3'')))) (r (c @ ''FGA''))"
    and "r' (c @ ''orbp'') = fdiv (r (c @ ''OR'')) (fadd (r (c @ ''OR'')) (r (opp @ ''DR'')))"
    and "r' (c @ ''ftr'') = fdiv (r (c @ ''FTA'')) (r (c @ ''FGA''))"
    and "r' ''rawpace'' =
           fdiv (fmul (Fin 0.5) (fadd (r' ''Tposs'') (r' ''Oposs'')))
                (fadd (fadd (r ''wins'') (r ''losses'')) (fmul (Fin 0.125) (r ''totOT'')))"
    and "\<forall>name\<in>set input_columns. r' name = r name"
  using c unfolding r'_def
  by (auto simp: run_row_def advanced_prog_def side_prog_def input_columns_def)


text \<open>
  C2: on a frame that has the input columns, \<open>add_advanced_stats\<close> returns, and in every
  row and for each side \<open>c\<close> (with \<open>opp\<close> the other side) the new columns hold the
  stated formulas of the row's input values, which are left as they were:
  \<open>poss = FGA + 0.44*FTA - OR + TO\<close>, \<open>eff = 100*Score/poss\<close>,
  \<open>astr = Ast/(FGA + 0.44*FTA + Ast + TO)\<close>, \<open>tovr = TO/(FGA + 0.44*FTA + TO)\<close>,
  \<open>efgp = (FGM + 0.5*FGM3)/FGA\<close>, \<open>orbp = OR/(OR + opp DR)\<close>, \<open>ftr = FTA/FGA\<close> and
  \<open>rawpace = 0.5*(Tposs + Oposs)/(wins + losses + 0.125*totOT)\<close>. The arithmetic is
  that of floats, taken exactly on finite numbers; a zero denominator gives an infinity
  or NaN and raises nothing.
\<close>

theorem advanced_stats_formulas:
  assumes "frame_ok n df" and "set input_columns \<subseteq> dom df" and "i < n"
    and "c = ''T'' \<and> opp = ''O'' \<or> c = ''O'' \<and> opp = ''T''"
  shows "\<exists>df'. add_advanced_stats df = Inr df'
      \<and> (\<forall>name\<in>set input_columns. cell df' i name = cell df i name)
      \<and> cell df' i (c @ ''poss'') =
           fadd (fsub (fadd (cell df i (c @ ''FGA''))
                            (fmul (Fin 0.44) (cell df i (c @ ''FTA''))))
                      (cell df i (c @ ''OR'')))
                (cell df i (c @ ''TO''))
      \<and> cell df' i (c @ ''eff'') =
           fdiv (fmul (Fin 100) (cell df i (c @ ''Score''))) (cell df' i (c @ ''poss''))
      \<and> cell df' i (c @ ''astr'') =
           fdiv (cell df i (c @ ''Ast''))
                (fadd (fadd (fadd (cell df i (c @ ''FGA''))
                                  (fmul (Fin 0.44) (cell df i (c @ ''FTA''))))
                            (cell df i (c @ ''Ast'')))
                      (cell df i (c @ ''TO'')))
      \<and> cell df' i (c @ ''tovr'') =
           fdiv (cell df i (c @ ''TO''))
                (fadd (fadd (cell df i (c @ ''FGA''))
                            (fmul (Fin 0.44) (cell df i (c @ ''FTA''))))
                      (cell df i (c @ ''TO'')))
      \<and> cell df' i (c @ ''efgp'') =
           fdiv (fadd (cell df i (c @ ''FGM'')) (fmul (Fin 0.5) (cell df i (c @ ''FGM3''))))
                (cell df i (c @ ''FGA''))
      \<and> cell df' i (c @ ''orbp'') =
           fdiv (cell df i (c @ ''OR''))
                (fadd (cell df i (c @ ''OR'')) (cell df i (opp @ ''DR'')))
      \<and> cell df' i (c @ ''ftr'') = fdiv (cell df i (c @ ''FTA'')) (cell df i (c @ ''FGA''))
      \<and> cell df' i ''rawpace'' =
           fdiv (fmul (Fin 0.5) (fadd (cell df' i ''Tposs'') (cell df' i ''Oposs'')))
                (fadd (fadd (cell df i ''wins'') (cell df i ''losses''))
                      (fmul (Fin 0.125) (cell df i ''totOT'')))"
proof -
  have "reads_ok advanced_prog (dom df)"
    by (rule reads_ok_mono [OF reads_ok_advanced assms(2)])
  from prog_ok [OF assms(1) this]
  obtain df' where run: "add_advanced_stats df = Inr df'"
    and v: "cell df' i = run_row advanced_prog (cell df i)"
    using assms(3) by (auto simp: add_advanced_stats_prog)
  note r = run_row_advanced [OF assms(4), of "cell df i", folded v]
  show ?thesis
    using run r by (intro exI [of _ df']) (simp only: simp_thms)
qed


lemma example_frame_ok: "frame_ok 2 example_frame"
  unfolding frame_ok_def example_frame_def
  by (auto dest!: map_of_SomeD)

lemma example_frame_inputs: "set input_columns \<subseteq> dom example_frame"
  by (simp add: input_columns_def example_frame_def)

theorem advanced_stats_formulas_witness:
  "\<exists>df'. add_advanced_stats example_frame = Inr df'
      \<and> cell df' 0 ''Tposs'' = Fin 73 \<and> cell df' 0 ''Teff'' = Fin (8000 / 73)
      \<and> cell df' 0 ''Tefgp'' = Fin (17 / 30) \<and> cell df' 0 ''Torbp'' = Fin (5 / 17)
      \<and> cell df' 0 ''Oposs'' = Fin (359 / 5) \<and> cell df' 0 ''Oorbp'' = Fin (9 / 34)
      \<and> cell df' 0 ''rawpace'' = Fin (362 / 5)
      \<and> cell df' 1 ''Tposs'' = Fin 0 \<and> cell df' 1 ''Tefgp'' = NaN"
proof -
  note t = advanced_stats_formulas [OF example_frame_ok example_frame_inputs]
  from t [of 0 "''T''" "''O''"] obtain df' where run: "add_advanced_stats example_frame = Inr df'"
    by auto
  have v: "cell example_frame 0 ''TFGA'' = Fin 60" "cell example_frame 0 ''TFTA'' = Fin 25"
    "cell example_frame 0 ''TOR'' = Fin 10" "cell example_frame 0 ''TTO'' = Fin 12"
    "cell example_frame 0 ''TScore'' = Fin 80" "cell example_frame 0 ''TFGM'' = Fin 30"
    "cell example_frame 0 ''TFGM3'' = Fin 8" "cell example_frame 0 ''TDR'' = Fin 25"
    "cell example_frame 0 ''OFGA'' = Fin 58" "cell example_frame 0 ''OFTA'' = Fin 20"
    "cell example_frame 0 ''OOR'' = Fin 9" "cell example_frame 0 ''OTO'' = Fin 14"
    "cell example_frame 0 ''ODR'' = Fin 24" "cell example_frame 0 ''wins'' = Fin 1"
    "cell example_frame 0 ''losses'' = Fin 0" "cell example_frame 0 ''totOT'' = Fin 0"
    "cell example_frame (Suc 0) ''TFGA'' = Fin 0" "cell example_frame (Suc 0) ''TFTA'' = Fin 0"
    "cell example_frame (Suc 0) ''TOR'' = Fin 0" "cell example_frame (Suc 0) ''TTO'' = Fin 0"
    "cell example_frame (Suc 0) ''TFGM'' = Fin 0" "cell example_frame (Suc 0) ''TFGM3'' = Fin 0"
    by (simp_all add: cell_def example_frame_def)
  from t [of 0 "''T''" "''O''"] run
  have a: "cell df' 0 ''Tposs'' = Fin 73" "cell df' 0 ''Teff'' = Fin (8000 / 73)"
    "cell df' 0 ''Tefgp'' = Fin (17 / 30)" "cell df' 0 ''Torbp'' = Fin (5 / 17)"
    by (simp_all add: v)
  from t [of 0 "''O''" "''T''"] run
  have b: "cell df' 0 ''Oposs'' = Fin (359 / 5)" "cell df' 0 ''Oorbp'' = Fin (9 / 34)"
    by (simp_all add: v)
  from t [of 0 "''T''" "''O''"] run a b
  have c: "cell df' 0 ''rawpace'' = Fin (362 / 5)"
    by (simp add: v)
  from t [of 1 "''T''" "''O''"] run
  have d: "cell df' 1 ''Tposs'' = Fin 0" "cell df' 1 ''Tefgp'' = NaN"
    by (simp_all add: v)
  show ?thesis
    using run a b c d by simp
qed


end
